theory Spec2Isabelle
  imports Main "HOL-Library.Word"
begin

unbundle bit_operations_syntax

section \<open>Standard-library functions used by the controller\<close>

text \<open>
  Go strings are byte sequences; they are modelled as \<^typ>\<open>string\<close>, whose characters
  are bytes, so \<^const>\<open>length\<close> is Go's \<open>len\<close>.
\<close>

type_synonym byte = "8 word"

subsection \<open>strings.ToLower\<close>

text \<open>
  \<open>strings.ToLower\<close> has a fast path for strings made of ASCII bytes only, which maps
  \<open>A\<close>..\<open>Z\<close> to \<open>a\<close>..\<open>z\<close>. Any other string goes through
  \<open>strings.Map(unicode.ToLower, s)\<close>, which depends on the Unicode case tables; that
  mapping is the parameter \<open>U\<close> of the model.
\<close>

definition isASCII :: "char \<Rightarrow> bool" where
  "isASCII c = ((of_char c :: nat) < 128)"

definition lowerASCII :: "char \<Rightarrow> char" where
  "lowerASCII c =
     (if (of_char (CHR ''A'') :: nat) \<le> of_char c \<and> (of_char c :: nat) \<le> of_char (CHR ''Z'')
      then char_of ((of_char c :: nat) + (of_char (CHR ''a'') - of_char (CHR ''A'')))
      else c)"

definition ToLower :: "(string \<Rightarrow> string) \<Rightarrow> string \<Rightarrow> string" where
  "ToLower U s = (if list_all isASCII s then map lowerASCII s else U s)"

subsection \<open>strings.Split with a one-byte separator\<close>

text \<open>
  \<open>Split_from cur sep s\<close> is the list of the pieces of \<open>s\<close> between separators,
  where \<open>cur\<close> holds (reversed) the bytes of the piece being read. An empty string gives
  one empty piece, as in Go.
\<close>

fun Split_from :: "string \<Rightarrow> char \<Rightarrow> string \<Rightarrow> string list" where
  "Split_from cur sep [] = [rev cur]"
| "Split_from cur sep (c # cs) =
     (if c = sep then rev cur # Split_from [] sep cs else Split_from (c # cur) sep cs)"

definition Split :: "string \<Rightarrow> char \<Rightarrow> string list" where
  "Split s sep = Split_from [] sep s"

subsection \<open>crypto/sha1 and encoding/hex\<close>

definition be32 :: "32 word \<Rightarrow> byte list" where
  "be32 w = [ucast (drop_bit 24 w), ucast (drop_bit 16 w), ucast (drop_bit 8 w), ucast w]"

definition be64 :: "64 word \<Rightarrow> byte list" where
  "be64 w = [ucast (drop_bit 56 w), ucast (drop_bit 48 w), ucast (drop_bit 40 w),
             ucast (drop_bit 32 w), ucast (drop_bit 24 w), ucast (drop_bit 16 w),
             ucast (drop_bit 8 w), ucast w]"

definition word32_of_be :: "byte list \<Rightarrow> 32 word" where
  "word32_of_be bs = fold (\<lambda>b acc. push_bit 8 acc OR ucast b) bs 0"

text \<open>The padding appended by \<open>checkSum\<close>: a 1 bit, zeros up to 56 bytes modulo 64, and
  the length of the message in bits as a 64-bit big-endian number.\<close>

definition sha1_padding :: "nat \<Rightarrow> byte list" where
  "sha1_padding len =
     (let t = (if len mod 64 < 56 then 56 - len mod 64 else 64 + 56 - len mod 64)
      in 0x80 # replicate (t - 1) 0 @ be64 (push_bit 3 (of_nat len)))"

definition sha1_chunks :: "byte list \<Rightarrow> byte list list" where
  "sha1_chunks p = map (\<lambda>k. take 64 (drop (64 * k) p)) [0..<length p div 64]"

text \<open>The message schedule: the sixteen words of the block, extended to eighty. The list
  handed to \<open>sha1_expand\<close> has sixteen words at the start, so its four reads are in
  range.\<close>

fun sha1_expand :: "nat \<Rightarrow> 32 word list \<Rightarrow> 32 word list" where
  "sha1_expand 0 ws = ws"
| "sha1_expand (Suc n) ws =
     sha1_expand n (ws @ [word_rotl 1 (ws ! (length ws - 3) XOR ws ! (length ws - 8) XOR
                                      ws ! (length ws - 14) XOR ws ! (length ws - 16))])"

definition sha1_schedule :: "byte list \<Rightarrow> 32 word list" where
  "sha1_schedule p = sha1_expand 64 (map (\<lambda>i. word32_of_be (take 4 (drop (4 * i) p))) [0..<16])"

definition sha1_f :: "nat \<Rightarrow> 32 word \<Rightarrow> 32 word \<Rightarrow> 32 word \<Rightarrow> 32 word" where
  "sha1_f i b c d =
     (if i < 20 then (b AND c) OR (NOT b AND d)
      else if i < 40 then b XOR c XOR d
      else if i < 60 then ((b OR c) AND d) OR (b AND c)
      else b XOR c XOR d)"

definition sha1_K :: "nat \<Rightarrow> 32 word" where
  "sha1_K i =
     (if i < 20 then 0x5A827999
      else if i < 40 then 0x6ED9EBA1
      else if i < 60 then 0x8F1BBCDC
      else 0xCA62C1D6)"

type_synonym sha1_state = "32 word \<times> 32 word \<times> 32 word \<times> 32 word \<times> 32 word"

definition sha1_round :: "nat \<times> 32 word \<Rightarrow> sha1_state \<Rightarrow> sha1_state" where
  "sha1_round iw h =
     (case h of (a, b, c, d, e) \<Rightarrow>
        (word_rotl 5 a + sha1_f (fst iw) b c d + e + snd iw + sha1_K (fst iw),
         a, word_rotl 30 b, c, d))"

definition sha1_block :: "byte list \<Rightarrow> sha1_state \<Rightarrow> sha1_state" where
  "sha1_block p h =
     (case h of (h0, h1, h2, h3, h4) \<Rightarrow>
        (case fold sha1_round (zip [0..<80] (sha1_schedule p)) h of (a, b, c, d, e) \<Rightarrow>
           (h0 + a, h1 + b, h2 + c, h3 + d, h4 + e)))"

definition sha1_init :: sha1_state where
  "sha1_init = (0x67452301, 0xEFCDAB89, 0x98BADCFE, 0x10325476, 0xC3D2E1F0)"

definition sha1_Sum :: "byte list \<Rightarrow> byte list" where
  "sha1_Sum msg =
     (case fold sha1_block (sha1_chunks (msg @ sha1_padding (length msg))) sha1_init of
        (h0, h1, h2, h3, h4) \<Rightarrow> be32 h0 @ be32 h1 @ be32 h2 @ be32 h3 @ be32 h4)"

definition hextable :: string where
  "hextable = ''0123456789abcdef''"

definition EncodeToString :: "byte list \<Rightarrow> string" where
  "EncodeToString src =
     concat (map (\<lambda>v. [hextable ! unat (drop_bit 4 v), hextable ! unat (v AND 0x0f)]) src)"

section \<open>Volume identity codec\<close>

definition sanitizeVolumeID :: "(string \<Rightarrow> string) \<Rightarrow> string \<Rightarrow> string" where
  "sanitizeVolumeID U volumeID =
     (let volumeID = ToLower U volumeID
      in if length volumeID > 63
         then EncodeToString (sha1_Sum (map of_char volumeID))
         else volumeID)"

definition volumeIDToBucketPrefix :: "string \<Rightarrow> string \<times> string" where
  "volumeIDToBucketPrefix volumeID =
     (let splitVolumeID = Split volumeID (CHR ''/'')
      in if length splitVolumeID > 1
         then (splitVolumeID ! 0, splitVolumeID ! 1)
         else (volumeID, ''''))"

section \<open>path.Join\<close>

text \<open>
  \<open>path.Clean\<close> works on the slash-separated elements of a path: empty elements and
  \<open>.\<close> are dropped, \<open>..\<close> removes the element before it (at the start of a relative
  path it is kept, at the start of a rooted path it is dropped). \<open>out\<close> holds the
  elements kept so far, last one first.
\<close>

fun Clean_elems :: "bool \<Rightarrow> string list \<Rightarrow> string list \<Rightarrow> string list" where
  "Clean_elems rooted out [] = rev out"
| "Clean_elems rooted out (e # es) =
     (if e = '''' \<or> e = ''.'' then Clean_elems rooted out es
      else if e = ''..'' then
        (case out of
           [] \<Rightarrow> if rooted then Clean_elems rooted out es else Clean_elems rooted (e # out) es
         | x # xs \<Rightarrow> if x \<noteq> ''..'' then Clean_elems rooted xs es
                     else Clean_elems rooted (e # out) es)
      else Clean_elems rooted (e # out) es)"

fun slash_join :: "string list \<Rightarrow> string" where
  "slash_join [] = ''''"
| "slash_join [e] = e"
| "slash_join (e # es) = e @ ''/'' @ slash_join es"

definition Clean :: "string \<Rightarrow> string" where
  "Clean path =
     (if path = '''' then ''.''
      else
        let rooted = (hd path = CHR ''/'');
            out = (if rooted then ''/'' else '''') @
                  slash_join (Clean_elems rooted [] (Split path (CHR ''/'')))
        in if out = '''' then ''.'' else out)"

text \<open>\<open>Join_buf\<close> is the loop of \<open>path.Join\<close> that skips leading empty elements and
  separates the others with slashes.\<close>

fun Join_buf :: "string \<Rightarrow> string list \<Rightarrow> string" where
  "Join_buf buf [] = buf"
| "Join_buf buf (e # es) =
     Join_buf (if buf \<noteq> '''' \<or> e \<noteq> ''''
               then (if buf \<noteq> '''' then buf @ ''/'' else buf) @ e
               else buf) es"

definition Join :: "string list \<Rightarrow> string" where
  "Join elem = (if sum_list (map length elem) = 0 then '''' else Clean (Join_buf '''' elem))"

section \<open>Data model\<close>

datatype Code = InvalidArgument | AlreadyExists | NotFound | Unimplemented

text \<open>
  Errors: \<open>Status\<close> is \<open>status.Error(code, msg)\<close>; \<open>Errorf msg err\<close> is
  \<open>fmt.Errorf\<close> with a message that ends with the text of \<open>err\<close>; \<open>ErrorMsg\<close> is
  \<open>fmt.Errorf\<close> with no cause; \<open>External\<close> is an error raised by a collaborator.
\<close>

datatype error =
    Status Code string
  | Errorf string error
  | ErrorMsg string
  | External string

record FSMeta =
  BucketName :: string
  Prefix :: string
  Mounter :: string
  CapacityBytes :: "64 word"
  FSPath :: string
  CreatedByCsi :: bool

datatype VolumeCapability_AccessMode_Mode =
    UNKNOWN
  | SINGLE_NODE_WRITER
  | SINGLE_NODE_READER_ONLY
  | MULTI_NODE_READER_ONLY
  | MULTI_NODE_SINGLE_WRITER
  | MULTI_NODE_MULTI_WRITER

record VolumeCapability_AccessMode =
  Mode :: VolumeCapability_AccessMode_Mode

record VolumeCapability =
  AccessMode :: "VolumeCapability_AccessMode option"

record CapacityRange =
  RequiredBytes :: "64 word"
  LimitBytes :: "64 word"

text \<open>Pointers and slices that may be nil are options: \<open>None\<close> is nil.\<close>

record CreateVolumeRequest =
  Name :: string
  CapacityRange :: "CapacityRange option"
  VolumeCapabilities :: "VolumeCapability option list option"
  Parameters :: "string \<rightharpoonup> string"
  Secrets :: "string \<rightharpoonup> string"

record Volume =
  CapacityBytes :: "64 word"
  VolumeId :: string
  VolumeContext :: "string \<rightharpoonup> string"

record CreateVolumeResponse =
  Volume :: Volume

record DeleteVolumeRequest =
  VolumeId :: string
  Secrets :: "string \<rightharpoonup> string"

record ValidateVolumeCapabilitiesRequest =
  VolumeId :: string
  VolumeCapabilities :: "VolumeCapability option list option"
  Secrets :: "string \<rightharpoonup> string"

record ValidateVolumeCapabilitiesResponse_Confirmed =
  VolumeCapabilities :: "VolumeCapability option list"

record ValidateVolumeCapabilitiesResponse =
  Confirmed :: "ValidateVolumeCapabilitiesResponse_Confirmed option"
  Message :: string

text \<open>The nil-safe getters generated for the protocol messages.\<close>

definition GetRequiredBytes :: "CapacityRange option \<Rightarrow> 64 word" where
  "GetRequiredBytes r = (case r of None \<Rightarrow> 0 | Some x \<Rightarrow> RequiredBytes x)"

definition GetAccessMode :: "VolumeCapability option \<Rightarrow> VolumeCapability_AccessMode option" where
  "GetAccessMode c = (case c of None \<Rightarrow> None | Some x \<Rightarrow> AccessMode x)"

definition GetMode :: "VolumeCapability_AccessMode option \<Rightarrow> VolumeCapability_AccessMode_Mode" where
  "GetMode m = (case m of None \<Rightarrow> UNKNOWN | Some x \<Rightarrow> Mode x)"

text \<open>Reading a key that a Go map does not hold gives the empty string.\<close>

definition index_map :: "(string \<rightharpoonup> string) \<Rightarrow> string \<Rightarrow> string" where
  "index_map m k = (case m k of None \<Rightarrow> '''' | Some v \<Rightarrow> v)"

section \<open>Collaborators\<close>

datatype ControllerServiceCapability_RPC_Type =
    RPC_UNKNOWN
  | RPC_CREATE_DELETE_VOLUME
  | RPC_PUBLISH_UNPUBLISH_VOLUME

text \<open>
  What the controller takes from its surroundings, as parameters: the two parameter keys
  declared in package \<open>mounter\<close> (\<open>mounter.BucketKey\<close>, \<open>mounter.TypeKey\<close>), the
  Unicode lower-casing of \<open>strings.ToLower\<close>, the request validation of the driver
  (\<open>cs.Driver.ValidateControllerServiceRequest\<close>), and whether \<open>s3.NewClientFromSecret\<close>
  builds a client from the secrets of a request (\<open>None\<close>) or returns an error.
\<close>

record controllerServer =
  BucketKey :: string
  TypeKey :: string
  unicodeLower :: "string \<Rightarrow> string"
  ValidateControllerServiceRequest :: "ControllerServiceCapability_RPC_Type \<Rightarrow> error option"
  NewClientFromSecret :: "(string \<rightharpoonup> string) \<Rightarrow> error option"

datatype call =
    BucketExistsCall string
  | GetFSMetaCall string string
  | CreateBucketCall string
  | CreatePrefixCall string string
  | SetFSMetaCall FSMeta
  | RemovePrefixCall string string
  | RemoveBucketCall string

text \<open>
  Modelled from the spec: the object-storage client (package \<open>s3\<close>) is not among the
  sources. The backend holds the buckets, one metadata record per (bucket, prefix) pair and
  the key paths created inside the buckets. \<open>failure\<close> says which calls the backend
  answers with an error; such a call changes nothing. \<open>mutations\<close> lists the mutating
  calls carried out so far, oldest first.
\<close>

record backend =
  buckets :: "string set"
  fsmeta :: "string \<times> string \<rightharpoonup> FSMeta"
  paths :: "(string \<times> string) set"
  failure :: "call \<Rightarrow> error option"
  mutations :: "call list"

text \<open>
  Modelled from the spec: the operations of the client, after the collaborator interface
  of the spec (\<open>bucketExists\<close>, \<open>getMetadata\<close>, \<open>createBucket\<close>, \<open>createPrefix\<close>,
  \<open>setMetadata\<close>, \<open>removePrefix\<close>, \<open>removeBucket\<close>). The two reads return an error or a
  value; reading metadata that the backend does not hold is an error. A mutating call
  returns an error and leaves the backend as it is, or returns no error, changes the
  backend and is added to \<open>mutations\<close>. Removing a prefix removes the metadata record
  of that prefix and the paths that start with it; removing a bucket removes the bucket
  with its metadata records and paths.
\<close>

definition BucketExists :: "string \<Rightarrow> backend \<Rightarrow> error + bool" where
  "BucketExists name s =
     (case failure s (BucketExistsCall name) of
        Some err \<Rightarrow> Inl err
      | None \<Rightarrow> Inr (name \<in> buckets s))"

definition GetFSMeta :: "string \<Rightarrow> string \<Rightarrow> backend \<Rightarrow> error + FSMeta" where
  "GetFSMeta name prefix s =
     (case failure s (GetFSMetaCall name prefix) of
        Some err \<Rightarrow> Inl err
      | None \<Rightarrow>
          (case fsmeta s (name, prefix) of
             None \<Rightarrow> Inl (External ''not-found'')
           | Some meta \<Rightarrow> Inr meta))"

definition mutate :: "call \<Rightarrow> (backend \<Rightarrow> backend) \<Rightarrow> backend \<Rightarrow> error option \<times> backend" where
  "mutate c f s =
     (case failure s c of
        Some err \<Rightarrow> (Some err, s)
      | None \<Rightarrow> (None, (f s)\<lparr>mutations := mutations s @ [c]\<rparr>))"

definition CreateBucket :: "string \<Rightarrow> backend \<Rightarrow> error option \<times> backend" where
  "CreateBucket name =
     mutate (CreateBucketCall name) (\<lambda>s. s\<lparr>buckets := insert name (buckets s)\<rparr>)"

definition CreatePrefix :: "string \<Rightarrow> string \<Rightarrow> backend \<Rightarrow> error option \<times> backend" where
  "CreatePrefix name path =
     mutate (CreatePrefixCall name path) (\<lambda>s. s\<lparr>paths := insert (name, path) (paths s)\<rparr>)"

definition SetFSMeta :: "FSMeta \<Rightarrow> backend \<Rightarrow> error option \<times> backend" where
  "SetFSMeta meta =
     mutate (SetFSMetaCall meta)
       (\<lambda>s. s\<lparr>fsmeta := (fsmeta s)((BucketName meta, Prefix meta) \<mapsto> meta)\<rparr>)"

definition RemovePrefix :: "string \<Rightarrow> string \<Rightarrow> backend \<Rightarrow> error option \<times> backend" where
  "RemovePrefix name path =
     mutate (RemovePrefixCall name path)
       (\<lambda>s. s\<lparr>fsmeta := (fsmeta s)((name, path) := None),
              paths := {bp \<in> paths s. \<not> (fst bp = name \<and> take (length path) (snd bp) = path)}\<rparr>)"

definition RemoveBucket :: "string \<Rightarrow> backend \<Rightarrow> error option \<times> backend" where
  "RemoveBucket name =
     mutate (RemoveBucketCall name)
       (\<lambda>s. s\<lparr>buckets := buckets s - {name},
              fsmeta := (\<lambda>bp. if fst bp = name then None else fsmeta s bp),
              paths := {bp \<in> paths s. fst bp \<noteq> name}\<rparr>)"

section \<open>Volume lifecycle controller\<close>

definition defaultFsPath :: string where
  "defaultFsPath = ''csi-fs''"

text \<open>
  The first part of \<open>CreateVolume\<close>: bucket name, prefix and volume identifier, in this
  order, from the requested name and the bucket override.
\<close>

definition CreateVolume_names :: "controllerServer \<Rightarrow> CreateVolumeRequest \<Rightarrow> string \<times> string \<times> string" where
  "CreateVolume_names cs req =
     (let volumeID = sanitizeVolumeID (unicodeLower cs) (Name req)
      in case Parameters req (BucketKey cs) of
           Some nameOverride \<Rightarrow> (nameOverride, volumeID, Join [nameOverride, volumeID])
         | None \<Rightarrow> (volumeID, '''', volumeID))"

text \<open>
  The middle part of \<open>CreateVolume\<close>, after the existence check: the metadata record to
  persist, or the error the function returns with.
\<close>

definition CreateVolume_meta ::
  "string \<Rightarrow> string \<Rightarrow> string \<Rightarrow> string \<Rightarrow> 64 word \<Rightarrow> bool \<Rightarrow> backend \<Rightarrow> (error + FSMeta) \<times> backend" where
  "CreateVolume_meta volumeID bucketName prefix mounter capacityBytes exists s =
     (if exists then
        (case GetFSMeta bucketName prefix s of
           Inl err \<Rightarrow>
             (Inr \<lparr>BucketName = bucketName, Prefix = prefix, Mounter = mounter,
                   FSMeta.CapacityBytes = capacityBytes, FSPath = defaultFsPath,
                   CreatedByCsi = False\<rparr>, s)
         | Inr meta \<Rightarrow>
             if FSMeta.CapacityBytes meta <s capacityBytes
             then (Inl (Status AlreadyExists
                     (''Volume with the same name: '' @ volumeID @
                      '' but with smaller size already exist'')), s)
             else (Inr (meta\<lparr>Mounter := mounter\<rparr>), s))
      else
        (case CreateBucket bucketName s of
           (Some err, s1) \<Rightarrow>
             (Inl (Errorf (''failed to create bucket '' @ bucketName @ '': '') err), s1)
         | (None, s1) \<Rightarrow>
             (case CreatePrefix bucketName (Join [prefix, defaultFsPath]) s1 of
                (Some err, s2) \<Rightarrow>
                  (Inl (Errorf (''failed to create prefix '' @ Join [prefix, defaultFsPath] @ '': '')
                          err), s2)
              | (None, s2) \<Rightarrow>
                  (Inr \<lparr>BucketName = bucketName, Prefix = prefix, Mounter = mounter,
                        FSMeta.CapacityBytes = capacityBytes, FSPath = defaultFsPath,
                        CreatedByCsi = (\<not> exists)\<rparr>, s2))))"

definition CreateVolume ::
  "controllerServer \<Rightarrow> CreateVolumeRequest \<Rightarrow> backend \<Rightarrow> (error + CreateVolumeResponse) \<times> backend" where
  "CreateVolume cs req s =
     (case CreateVolume_names cs req of (bucketName, prefix, volumeID) \<Rightarrow>
        (case ValidateControllerServiceRequest cs RPC_CREATE_DELETE_VOLUME of
           Some err \<Rightarrow> (Inl err, s)
         | None \<Rightarrow>
             if length volumeID = 0
             then (Inl (Status InvalidArgument ''Name missing in request''), s)
             else if CreateVolumeRequest.VolumeCapabilities req = None
             then (Inl (Status InvalidArgument ''Volume Capabilities missing in request''), s)
             else
               (let capacityBytes = GetRequiredBytes (CapacityRange req);
                    mounter = index_map (Parameters req) (TypeKey cs)
                in (case NewClientFromSecret cs (CreateVolumeRequest.Secrets req) of
                    Some err \<Rightarrow> (Inl (Errorf ''failed to initialize S3 client: '' err), s)
                  | None \<Rightarrow>
                      (case BucketExists bucketName s of
                         Inl err \<Rightarrow>
                           (Inl (Errorf (''failed to check if bucket '' @ volumeID @ '' exists: '')
                                   err), s)
                       | Inr exists \<Rightarrow>
                           (case CreateVolume_meta volumeID bucketName prefix mounter
                                   capacityBytes exists s of
                              (Inl err, s1) \<Rightarrow> (Inl err, s1)
                            | (Inr meta, s1) \<Rightarrow>
                                (case SetFSMeta meta s1 of
                                   (Some err, s2) \<Rightarrow>
                                     (Inl (Errorf ''error setting bucket metadata: '' err), s2)
                                 | (None, s2) \<Rightarrow>
                                     (Inr \<lparr>Volume = \<lparr>Volume.CapacityBytes = capacityBytes,
                                                     Volume.VolumeId = volumeID,
                                                     VolumeContext = Parameters req\<rparr>\<rparr>, s2))))))))"

definition DeleteVolume ::
  "controllerServer \<Rightarrow> DeleteVolumeRequest \<Rightarrow> backend \<Rightarrow> (error + unit) \<times> backend" where
  "DeleteVolume cs req s =
     (let volumeID = DeleteVolumeRequest.VolumeId req
      in case volumeIDToBucketPrefix volumeID of (bucketName, prefix) \<Rightarrow>
        if length volumeID = 0
        then (Inl (Status InvalidArgument ''Volume ID missing in request''), s)
        else
          (case ValidateControllerServiceRequest cs RPC_CREATE_DELETE_VOLUME of
             Some err \<Rightarrow> (Inl err, s)
           | None \<Rightarrow>
               (case NewClientFromSecret cs (DeleteVolumeRequest.Secrets req) of
                  Some err \<Rightarrow> (Inl (Errorf ''failed to initialize S3 client: '' err), s)
                | None \<Rightarrow>
                    (case BucketExists bucketName s of
                       Inl err \<Rightarrow> (Inl err, s)
                     | Inr exists \<Rightarrow>
                         if exists then
                           (case GetFSMeta bucketName prefix s of
                              Inl err \<Rightarrow>
                                (Inl (ErrorMsg (''failed to get metadata of buckect '' @ volumeID)), s)
                            | Inr meta \<Rightarrow>
                                (case (if prefix \<noteq> '''' then RemovePrefix bucketName prefix s
                                       else (None, s)) of
                                   (Some err, s1) \<Rightarrow>
                                     (Inl (Errorf ''unable to remove prefix: '' err), s1)
                                 | (None, s1) \<Rightarrow>
                                     if CreatedByCsi meta then
                                       (case RemoveBucket bucketName s1 of
                                          (Some err, s2) \<Rightarrow> (Inl err, s2)
                                        | (None, s2) \<Rightarrow> (Inr (), s2))
                                     else (Inr (), s1)))
                         else (Inr (), s)))))"

text \<open>The loop of \<open>ValidateVolumeCapabilities\<close>: the response it returns with, if any.\<close>

fun ValidateVolumeCapabilities_loop ::
  "VolumeCapability_AccessMode \<Rightarrow> VolumeCapability option list \<Rightarrow>
   ValidateVolumeCapabilitiesResponse option" where
  "ValidateVolumeCapabilities_loop supportedAccessMode [] = None"
| "ValidateVolumeCapabilities_loop supportedAccessMode (cap # caps) =
     (if GetMode (GetAccessMode cap) \<noteq> GetMode (Some supportedAccessMode)
      then Some \<lparr>Confirmed = None, Message = ''Only single node writer is supported''\<rparr>
      else ValidateVolumeCapabilities_loop supportedAccessMode caps)"

definition ValidateVolumeCapabilities ::
  "controllerServer \<Rightarrow> ValidateVolumeCapabilitiesRequest \<Rightarrow> backend \<Rightarrow>
   error + ValidateVolumeCapabilitiesResponse" where
  "ValidateVolumeCapabilities cs req s =
     (if length (ValidateVolumeCapabilitiesRequest.VolumeId req) = 0
      then Inl (Status InvalidArgument ''Volume ID missing in request'')
      else
        (case ValidateVolumeCapabilitiesRequest.VolumeCapabilities req of
           None \<Rightarrow> Inl (Status InvalidArgument ''Volume capabilities missing in request'')
         | Some caps \<Rightarrow>
             (case volumeIDToBucketPrefix (ValidateVolumeCapabilitiesRequest.VolumeId req) of
                (bucketName, prefix) \<Rightarrow>
                  (case NewClientFromSecret cs (ValidateVolumeCapabilitiesRequest.Secrets req) of
                     Some err \<Rightarrow> Inl (Errorf ''failed to initialize S3 client: '' err)
                   | None \<Rightarrow>
                       (case BucketExists bucketName s of
                          Inl err \<Rightarrow> Inl err
                        | Inr exists \<Rightarrow>
                            if \<not> exists
                            then Inl (Status NotFound
                                   (''bucket of volume with id '' @
                                    ValidateVolumeCapabilitiesRequest.VolumeId req @
                                    '' does not exist''))
                            else
                              (case GetFSMeta bucketName prefix s of
                                 Inl err \<Rightarrow>
                                   Inl (Status NotFound
                                     (''fsmeta of volume with id '' @
                                      ValidateVolumeCapabilitiesRequest.VolumeId req @
                                      '' does not exist''))
                               | Inr meta \<Rightarrow>
                                   (let supportedAccessMode = \<lparr>Mode = SINGLE_NODE_WRITER\<rparr>
                                    in case ValidateVolumeCapabilities_loop supportedAccessMode caps of
                                         Some resp \<Rightarrow> Inr resp
                                       | None \<Rightarrow>
                                           Inr \<lparr>Confirmed =
                                                   Some \<lparr>ValidateVolumeCapabilitiesResponse_Confirmed.VolumeCapabilities =
                                                           [Some \<lparr>AccessMode = Some supportedAccessMode\<rparr>]\<rparr>,
                                                 Message = ''''\<rparr>)))))))"

section \<open>Example inputs\<close>

text \<open>A controller whose driver accepts every request and whose client is always built,
  with the parameter keys \<open>bucket\<close> and \<open>mounter\<close>.\<close>

definition example_server :: controllerServer where
  "example_server =
     \<lparr>BucketKey = ''bucket'', TypeKey = ''mounter'', unicodeLower = (\<lambda>s. s),
      ValidateControllerServiceRequest = (\<lambda>c. None),
      NewClientFromSecret = (\<lambda>secrets. None)\<rparr>"

definition empty_backend :: backend where
  "empty_backend =
     \<lparr>buckets = {}, fsmeta = Map.empty, paths = {}, failure = (\<lambda>c. None), mutations = []\<rparr>"

text \<open>A backend with one bucket and no metadata in it.\<close>

definition bare_backend :: "string \<Rightarrow> backend" where
  "bare_backend name = empty_backend\<lparr>buckets := {name}\<rparr>"

text \<open>A backend with one bucket that holds the metadata record \<open>meta\<close>.\<close>

definition backend_with :: "FSMeta \<Rightarrow> backend" where
  "backend_with meta =
     empty_backend\<lparr>buckets := {BucketName meta},
                   fsmeta := [(BucketName meta, Prefix meta) \<mapsto> meta]\<rparr>"

definition example_meta :: "string \<Rightarrow> string \<Rightarrow> 64 word \<Rightarrow> bool \<Rightarrow> FSMeta" where
  "example_meta name prefix capacity created =
     \<lparr>BucketName = name, Prefix = prefix, Mounter = ''rclone'',
      FSMeta.CapacityBytes = capacity, FSPath = ''csi-fs'', CreatedByCsi = created\<rparr>"

definition single_writer :: "VolumeCapability option" where
  "single_writer = Some \<lparr>AccessMode = Some \<lparr>Mode = SINGLE_NODE_WRITER\<rparr>\<rparr>"

definition multi_writer :: "VolumeCapability option" where
  "multi_writer = Some \<lparr>AccessMode = Some \<lparr>Mode = MULTI_NODE_MULTI_WRITER\<rparr>\<rparr>"

definition create_request ::
  "string \<Rightarrow> 64 word \<Rightarrow> VolumeCapability option list option \<Rightarrow> (string \<rightharpoonup> string) \<Rightarrow>
   CreateVolumeRequest" where
  "create_request name capacity caps params =
     \<lparr>Name = name, CapacityRange = Some \<lparr>RequiredBytes = capacity, LimitBytes = 0\<rparr>,
      CreateVolumeRequest.VolumeCapabilities = caps, Parameters = params,
      CreateVolumeRequest.Secrets = Map.empty\<rparr>"

definition delete_request :: "string \<Rightarrow> DeleteVolumeRequest" where
  "delete_request volumeID =
     \<lparr>DeleteVolumeRequest.VolumeId = volumeID, DeleteVolumeRequest.Secrets = Map.empty\<rparr>"

definition validate_request ::
  "string \<Rightarrow> VolumeCapability option list option \<Rightarrow> ValidateVolumeCapabilitiesRequest" where
  "validate_request volumeID caps =
     \<lparr>ValidateVolumeCapabilitiesRequest.VolumeId = volumeID,
      ValidateVolumeCapabilitiesRequest.VolumeCapabilities = caps,
      ValidateVolumeCapabilitiesRequest.Secrets = Map.empty\<rparr>"

section \<open>Properties of the volume identity codec\<close>

subsection \<open>Splitting\<close>

lemma Split_from_no_sep: "sep \<notin> set s \<Longrightarrow> Split_from cur sep s = [rev cur @ s]"
  by (induction s arbitrary: cur) auto

lemma Split_no_sep: "sep \<notin> set s \<Longrightarrow> Split s sep = [s]"
  by (simp add: Split_def Split_from_no_sep)

lemma Split_from_takeWhile:
  "Split_from cur sep s =
     (rev cur @ takeWhile (\<lambda>c. c \<noteq> sep) s) #
     (case dropWhile (\<lambda>c. c \<noteq> sep) s of [] \<Rightarrow> [] | _ # rest \<Rightarrow> Split_from [] sep rest)"
  by (induction s arbitrary: cur) auto

lemma Split_unfold:
  "Split s sep =
     takeWhile (\<lambda>c. c \<noteq> sep) s #
     (case dropWhile (\<lambda>c. c \<noteq> sep) s of [] \<Rightarrow> [] | _ # rest \<Rightarrow> Split rest sep)"
  unfolding Split_def using Split_from_takeWhile [of "[]" sep s] by simp

text \<open>
  What \<open>volumeIDToBucketPrefix\<close> computes on every string: without a slash, the
  identifier and the empty prefix; with a slash, the piece before the first slash and the
  piece between the first slash and the second one (or the end of the string).
\<close>

lemma volumeIDToBucketPrefix_eq:
  "volumeIDToBucketPrefix volumeID =
     (case dropWhile (\<lambda>c. c \<noteq> CHR ''/'') volumeID of
        [] \<Rightarrow> (volumeID, '''')
      | _ # rest \<Rightarrow> (takeWhile (\<lambda>c. c \<noteq> CHR ''/'') volumeID,
                     takeWhile (\<lambda>c. c \<noteq> CHR ''/'') rest))"
proof (cases "CHR ''/'' \<in> set volumeID")
  case False
  then have "dropWhile (\<lambda>c. c \<noteq> CHR ''/'') volumeID = []"
    by auto
  moreover have "volumeIDToBucketPrefix volumeID = (volumeID, '''')"
    using False by (simp add: volumeIDToBucketPrefix_def Split_no_sep)
  ultimately show ?thesis
    by (simp only: list.case)
next
  case True
  then obtain c rest where d: "dropWhile (\<lambda>c. c \<noteq> CHR ''/'') volumeID = c # rest"
    by (cases "dropWhile (\<lambda>c. c \<noteq> CHR ''/'') volumeID") auto
  have "Split volumeID (CHR ''/'') =
          takeWhile (\<lambda>c. c \<noteq> CHR ''/'') volumeID # Split rest (CHR ''/'')"
    by (subst Split_unfold) (simp only: d list.case)
  moreover obtain xs where "Split rest (CHR ''/'') = takeWhile (\<lambda>c. c \<noteq> CHR ''/'') rest # xs"
    using Split_unfold [of rest "CHR ''/''"] by blast
  ultimately have "volumeIDToBucketPrefix volumeID =
      (takeWhile (\<lambda>c. c \<noteq> CHR ''/'') volumeID, takeWhile (\<lambda>c. c \<noteq> CHR ''/'') rest)"
    by (simp add: volumeIDToBucketPrefix_def)
  then show ?thesis
    by (simp only: d list.case)
qed

lemma volumeIDToBucketPrefix_empty_prefix:
  "CHR ''/'' \<notin> set volumeID \<Longrightarrow> volumeIDToBucketPrefix volumeID = (volumeID, '''')"
  by (simp add: volumeIDToBucketPrefix_def Split_no_sep)

lemma volumeIDToBucketPrefix_slash:
  assumes "CHR ''/'' \<in> set volumeID"
  shows "volumeIDToBucketPrefix volumeID =
     (takeWhile (\<lambda>c. c \<noteq> CHR ''/'') volumeID,
      takeWhile (\<lambda>c. c \<noteq> CHR ''/'') (tl (dropWhile (\<lambda>c. c \<noteq> CHR ''/'') volumeID)))"
proof -
  obtain c rest where d: "dropWhile (\<lambda>c. c \<noteq> CHR ''/'') volumeID = c # rest"
    using assms by (cases "dropWhile (\<lambda>c. c \<noteq> CHR ''/'') volumeID") auto
  show ?thesis
    by (simp add: volumeIDToBucketPrefix_eq d)
qed

lemma volumeIDToBucketPrefix_fst:
  "fst (volumeIDToBucketPrefix volumeID) = takeWhile (\<lambda>c. c \<noteq> CHR ''/'') volumeID"
proof (cases "CHR ''/'' \<in> set volumeID")
  case True
  then show ?thesis
    by (simp add: volumeIDToBucketPrefix_slash)
next
  case False
  then have t: "takeWhile (\<lambda>c. c \<noteq> CHR ''/'') volumeID = volumeID"
    by (auto simp: takeWhile_eq_all_conv)
  show ?thesis
    unfolding volumeIDToBucketPrefix_empty_prefix [OF False] t by simp
qed

lemma volumeIDToBucketPrefix_snd_no_slash:
  "CHR ''/'' \<notin> set (snd (volumeIDToBucketPrefix volumeID))"
proof (cases "CHR ''/'' \<in> set volumeID")
  case True
  have "CHR ''/'' \<notin> set (takeWhile (\<lambda>c. c \<noteq> CHR ''/'') xs)" for xs
    using set_takeWhileD by fastforce
  then show ?thesis
    using True by (simp add: volumeIDToBucketPrefix_slash)
next
  case False
  then show ?thesis
    by (simp add: volumeIDToBucketPrefix_empty_prefix)
qed

lemma volumeIDToBucketPrefix_prefix_nonempty:
  "snd (volumeIDToBucketPrefix volumeID) \<noteq> '''' \<Longrightarrow> volumeID \<noteq> ''''"
  by (auto simp: volumeIDToBucketPrefix_def Split_def)

subsection \<open>Digest and hexadecimal encoding\<close>

lemma length_sha1_Sum: "length (sha1_Sum msg) = 20"
  by (simp add: sha1_Sum_def be32_def split: prod.splits)

lemma length_EncodeToString: "length (EncodeToString src) = 2 * length src"
  by (induction src) (simp_all add: EncodeToString_def)

lemma hi_nibble: "unat (drop_bit 4 (v :: 8 word)) < 16"
proof -
  have "unat (drop_bit 4 v) = unat v div 16"
    by (simp add: drop_bit_eq_div unat_div)
  moreover have "unat v < 256"
    using unsigned_less [of v, where ?'a = nat] by simp
  ultimately show ?thesis by simp
qed

lemma lo_nibble: "unat ((v :: 8 word) AND 0x0f) < 16"
proof -
  have "(v AND 0x0f) \<le> 0x0f" by (rule word_and_le1)
  then show ?thesis by (simp add: word_le_nat_alt)
qed

lemma set_EncodeToString: "set (EncodeToString src) \<subseteq> set hextable"
proof -
  have "length hextable = 16" by (simp add: hextable_def)
  then have "hextable ! unat (drop_bit 4 v) \<in> set hextable"
       "hextable ! unat (v AND 0x0f) \<in> set hextable" for v :: "8 word"
    using hi_nibble [of v] lo_nibble [of v] by simp_all
  then show ?thesis
    by (auto simp: EncodeToString_def)
qed

subsection \<open>Deriving an identifier\<close>

text \<open>
  Claim C5. \<open>sanitizeVolumeID\<close> is a function of the name alone (and of the Unicode
  lower-casing \<open>U\<close> that \<open>strings.ToLower\<close> uses outside ASCII), so equal names give
  equal identifiers. When the lower-cased name has at most 63 bytes the result is the
  lower-cased name; when it is longer the result is the hexadecimal encoding of the SHA-1
  digest of the lower-cased name, which has 40 characters, all of them among
  \<open>0123456789abcdef\<close>.
\<close>

theorem sanitizeVolumeID_spec:
  "(length (ToLower U name) \<le> 63 \<longrightarrow> sanitizeVolumeID U name = ToLower U name) \<and>
   (63 < length (ToLower U name) \<longrightarrow>
      sanitizeVolumeID U name = EncodeToString (sha1_Sum (map of_char (ToLower U name))) \<and>
      length (sanitizeVolumeID U name) = 40 \<and>
      set (sanitizeVolumeID U name) \<subseteq> set hextable)"
  by (simp add: sanitizeVolumeID_def Let_def length_EncodeToString length_sha1_Sum
      set_EncodeToString)

theorem sanitizeVolumeID_spec_witness:
  "sanitizeVolumeID (\<lambda>s. s) ''My-Volume'' = ''my-volume'' \<and>
   length (sanitizeVolumeID (\<lambda>s. s) (replicate 64 (CHR ''A''))) = 40"
proof -
  have a: "ToLower (\<lambda>s. s) ''My-Volume'' = ''my-volume''"
    by code_simp
  have b: "63 < length (ToLower (\<lambda>s. s) (replicate 64 (CHR ''A'')))"
    by code_simp
  have c: "sanitizeVolumeID (\<lambda>s. s) ''My-Volume'' = ''my-volume''"
    using sanitizeVolumeID_spec [of "\<lambda>s. s" "''My-Volume''", THEN conjunct1]
    by (simp add: a)
  have d: "length (sanitizeVolumeID (\<lambda>s. s) (replicate 64 (CHR ''A''))) = 40"
    using sanitizeVolumeID_spec [of "\<lambda>s. s" "replicate 64 (CHR ''A'')", THEN conjunct2,
        THEN mp, OF b, THEN conjunct2, THEN conjunct1] .
  show ?thesis using c d by (rule conjI)
qed

subsection \<open>Decoding an identifier\<close>

text \<open>
  Claim C8. When the identifier derived from a name holds no slash, decoding it gives
  the identifier itself as the bucket and the empty prefix.
\<close>

theorem decode_derived_identifier:
  "CHR ''/'' \<notin> set (sanitizeVolumeID U name) \<Longrightarrow>
   volumeIDToBucketPrefix (sanitizeVolumeID U name) = (sanitizeVolumeID U name, '''')"
  by (simp add: volumeIDToBucketPrefix_def Split_no_sep)

theorem decode_derived_identifier_witness:
  "CHR ''/'' \<notin> set (sanitizeVolumeID (\<lambda>s. s) ''My-Volume'') \<and>
   volumeIDToBucketPrefix (sanitizeVolumeID (\<lambda>s. s) ''My-Volume'') = (''my-volume'', '''')"
proof -
  have v: "sanitizeVolumeID (\<lambda>s. s) ''My-Volume'' = ''my-volume''"
    by code_simp
  have h: "CHR ''/'' \<notin> set (sanitizeVolumeID (\<lambda>s. s) ''My-Volume'')"
    by (simp add: v)
  show ?thesis
    using h decode_derived_identifier [OF h] by (simp add: v)
qed

text \<open>
  Claim C4. The decode keeps the piece before the first slash as the bucket and returns
  the empty prefix when there is no slash (\<open>volumeIDToBucketPrefix_fst\<close>,
  \<open>volumeIDToBucketPrefix_empty_prefix\<close>), but its prefix is the piece between the first
  and the second slash, not all that follows the first slash
  (\<open>volumeIDToBucketPrefix_slash\<close>). \<open>CreateVolume\<close> builds identifiers whose prefix holds
  a slash: with the bucket override \<open>bucket\<close>, the name \<open>dir/sub\<close> gives the identifier
  \<open>bucket/dir/sub\<close> and metadata under the prefix \<open>dir/sub\<close>. The decode of that
  identifier gives the prefix \<open>dir\<close>, and \<open>DeleteVolume\<close> of the volume just created
  does not find its metadata.
\<close>

theorem volumeIDToBucketPrefix_second_slash:
  "volumeIDToBucketPrefix ''bucket/dir/sub'' = (''bucket'', ''dir'') \<and>
   \<not> isl (fst (CreateVolume example_server
      (create_request ''dir/sub'' 1024 (Some [single_writer]) [''bucket'' \<mapsto> ''bucket''])
      empty_backend)) \<and>
   Volume.VolumeId (Volume (projr (fst (CreateVolume example_server
      (create_request ''dir/sub'' 1024 (Some [single_writer]) [''bucket'' \<mapsto> ''bucket''])
      empty_backend)))) = ''bucket/dir/sub'' \<and>
   mutations (snd (CreateVolume example_server
      (create_request ''dir/sub'' 1024 (Some [single_writer]) [''bucket'' \<mapsto> ''bucket''])
      empty_backend)) =
     [CreateBucketCall ''bucket'', CreatePrefixCall ''bucket'' ''dir/sub/csi-fs'',
      SetFSMetaCall \<lparr>BucketName = ''bucket'', Prefix = ''dir/sub'', Mounter = '''',
        FSMeta.CapacityBytes = 1024, FSPath = ''csi-fs'', CreatedByCsi = True\<rparr>] \<and>
   fst (DeleteVolume example_server (delete_request ''bucket/dir/sub'')
      (snd (CreateVolume example_server
        (create_request ''dir/sub'' 1024 (Some [single_writer]) [''bucket'' \<mapsto> ''bucket''])
        empty_backend))) =
     Inl (ErrorMsg ''failed to get metadata of buckect bucket/dir/sub'')"
  by code_simp

section \<open>Properties of the volume lifecycle controller\<close>

lemma not_sless_iff: "(\<not> a <s b) = (b \<le>s a)" for a b :: "64 word"
  by (simp add: word_sless_alt word_sle_eq not_less)

lemma Clean_not_empty: "Clean path \<noteq> ''''"
  by (simp add: Clean_def Let_def)

text \<open>\<open>path.Join\<close> gives the empty string only when every element is empty, so with a
  bucket override the identifier of \<open>CreateVolume\<close> is empty only when both the override
  and the derived name are.\<close>

lemma Join_empty_iff: "Join elem = '''' \<longleftrightarrow> (\<forall>e \<in> set elem. e = '''')"
  by (auto simp: Join_def Clean_not_empty)

text \<open>The loop of \<open>ValidateVolumeCapabilities\<close> returns the negative response as soon as
  one capability has another access mode than the supported one.\<close>

lemma ValidateVolumeCapabilities_loop_eq:
  "ValidateVolumeCapabilities_loop supported caps =
     (if \<exists>cap \<in> set caps. GetMode (GetAccessMode cap) \<noteq> Mode supported
      then Some \<lparr>Confirmed = None, Message = ''Only single node writer is supported''\<rparr>
      else None)"
  by (induction caps) (auto simp: GetMode_def)

text \<open>
  \<open>CreateVolume\<close> once the request has passed the argument checks and the backend has
  answered the existence check.
\<close>

lemma CreateVolume_checked:
  assumes "CreateVolume_names cs req = (bucketName, prefix, volumeID)"
    and "ValidateControllerServiceRequest cs RPC_CREATE_DELETE_VOLUME = None"
    and "volumeID \<noteq> ''''"
    and "CreateVolumeRequest.VolumeCapabilities req \<noteq> None"
    and "NewClientFromSecret cs (CreateVolumeRequest.Secrets req) = None"
    and "BucketExists bucketName s = Inr exists"
  shows "CreateVolume cs req s =
     (case CreateVolume_meta volumeID bucketName prefix
             (index_map (Parameters req) (TypeKey cs))
             (GetRequiredBytes (CapacityRange req)) exists s of
        (Inl err, s1) \<Rightarrow> (Inl err, s1)
      | (Inr meta, s1) \<Rightarrow>
          (case SetFSMeta meta s1 of
             (Some err, s2) \<Rightarrow> (Inl (Errorf ''error setting bucket metadata: '' err), s2)
           | (None, s2) \<Rightarrow>
               (Inr \<lparr>Volume = \<lparr>Volume.CapacityBytes = GetRequiredBytes (CapacityRange req),
                               Volume.VolumeId = volumeID,
                               VolumeContext = Parameters req\<rparr>\<rparr>, s2)))"
  using assms by (auto simp: CreateVolume_def Let_def)

text \<open>
  Claim C2. A \<open>CreateVolume\<close> request that passes the argument checks, for a bucket that
  the backend reports as existing with readable metadata \<open>meta\<close>: when the requested
  capacity is greater than the stored one (as signed 64-bit numbers) the call returns the
  already-exists status and the backend is unchanged; when it is at most the stored one and
  the backend accepts the write, the call succeeds, and the one mutation is the write of
  \<open>meta\<close> with the \<open>Mounter\<close> field replaced.
\<close>

theorem CreateVolume_existing_volume:
  assumes "CreateVolume_names cs req = (bucketName, prefix, volumeID)"
    and "ValidateControllerServiceRequest cs RPC_CREATE_DELETE_VOLUME = None"
    and "volumeID \<noteq> ''''"
    and "CreateVolumeRequest.VolumeCapabilities req \<noteq> None"
    and "NewClientFromSecret cs (CreateVolumeRequest.Secrets req) = None"
    and "BucketExists bucketName s = Inr True"
    and "GetFSMeta bucketName prefix s = Inr meta"
  shows "(FSMeta.CapacityBytes meta <s GetRequiredBytes (CapacityRange req) \<longrightarrow>
            CreateVolume cs req s =
              (Inl (Status AlreadyExists
                 (''Volume with the same name: '' @ volumeID @
                  '' but with smaller size already exist'')), s)) \<and>
         (GetRequiredBytes (CapacityRange req) \<le>s FSMeta.CapacityBytes meta \<and>
          failure s (SetFSMetaCall (meta\<lparr>Mounter := index_map (Parameters req) (TypeKey cs)\<rparr>)) = None \<longrightarrow>
            CreateVolume cs req s =
              (Inr \<lparr>Volume = \<lparr>Volume.CapacityBytes = GetRequiredBytes (CapacityRange req),
                              Volume.VolumeId = volumeID,
                              VolumeContext = Parameters req\<rparr>\<rparr>,
               s\<lparr>fsmeta := (fsmeta s)((BucketName meta, Prefix meta) \<mapsto>
                                meta\<lparr>Mounter := index_map (Parameters req) (TypeKey cs)\<rparr>),
                 mutations := mutations s @
                   [SetFSMetaCall (meta\<lparr>Mounter := index_map (Parameters req) (TypeKey cs)\<rparr>)]\<rparr>))"
  using assms(7)
  by (auto simp: CreateVolume_checked [OF assms(1-6)] CreateVolume_meta_def SetFSMeta_def
      mutate_def not_sless_iff [symmetric])

theorem CreateVolume_existing_volume_witness:
  "CreateVolume example_server
     (create_request ''My-Volume'' 20 (Some [single_writer]) Map.empty)
     (backend_with (example_meta ''my-volume'' '''' 10 True)) =
     (Inl (Status AlreadyExists
        ''Volume with the same name: my-volume but with smaller size already exist''),
      backend_with (example_meta ''my-volume'' '''' 10 True)) \<and>
   fst (CreateVolume example_server
     (create_request ''My-Volume'' 5 (Some [single_writer]) [''mounter'' \<mapsto> ''s3fs''])
     (backend_with (example_meta ''my-volume'' '''' 10 True))) =
     Inr \<lparr>Volume = \<lparr>Volume.CapacityBytes = 5, Volume.VolumeId = ''my-volume'',
                     VolumeContext = [''mounter'' \<mapsto> ''s3fs'']\<rparr>\<rparr> \<and>
   mutations (snd (CreateVolume example_server
     (create_request ''My-Volume'' 5 (Some [single_writer]) [''mounter'' \<mapsto> ''s3fs''])
     (backend_with (example_meta ''my-volume'' '''' 10 True)))) =
     [SetFSMetaCall ((example_meta ''my-volume'' '''' 10 True)\<lparr>Mounter := ''s3fs''\<rparr>)]"
proof -
  let ?B = "backend_with (example_meta ''my-volume'' '''' 10 True)"
  let ?m = "example_meta ''my-volume'' '''' 10 True"
  let ?big = "create_request ''My-Volume'' 20 (Some [single_writer]) Map.empty"
  let ?small = "create_request ''My-Volume'' 5 (Some [single_writer]) [''mounter'' \<mapsto> ''s3fs'']"
  have n1: "CreateVolume_names example_server ?big = (''my-volume'', '''', ''my-volume'')"
    by code_simp
  have n2: "CreateVolume_names example_server ?small = (''my-volume'', '''', ''my-volume'')"
    by code_simp
  have v: "ValidateControllerServiceRequest example_server RPC_CREATE_DELETE_VOLUME = None"
    by (simp add: example_server_def)
  have ne: "''my-volume'' \<noteq> ''''"
    by simp
  have c1: "CreateVolumeRequest.VolumeCapabilities ?big \<noteq> None"
    and c2: "CreateVolumeRequest.VolumeCapabilities ?small \<noteq> None"
    by (simp_all add: create_request_def)
  have k1: "NewClientFromSecret example_server (CreateVolumeRequest.Secrets ?big) = None"
    and k2: "NewClientFromSecret example_server (CreateVolumeRequest.Secrets ?small) = None"
    by (simp_all add: example_server_def)
  have ex: "BucketExists ''my-volume'' ?B = Inr True"
    by code_simp
  have gm: "GetFSMeta ''my-volume'' '''' ?B = Inr ?m"
    by code_simp
  have lt: "FSMeta.CapacityBytes ?m <s GetRequiredBytes (CapacityRange ?big)"
    by code_simp
  have mo: "index_map (Parameters ?small) (TypeKey example_server) = ''s3fs''"
    by code_simp
  have rq: "GetRequiredBytes (CapacityRange ?small) = 5"
    by code_simp
  have pa: "Parameters ?small = [''mounter'' \<mapsto> ''s3fs'']"
    by (simp add: create_request_def)
  have le: "GetRequiredBytes (CapacityRange ?small) \<le>s FSMeta.CapacityBytes ?m \<and>
            failure ?B (SetFSMetaCall (?m\<lparr>Mounter := index_map (Parameters ?small)
                                                        (TypeKey example_server)\<rparr>)) = None"
    by (simp add: rq) (simp add: backend_with_def empty_backend_def example_meta_def)
  have r1: "CreateVolume example_server ?big ?B =
        (Inl (Status AlreadyExists
           (''Volume with the same name: '' @ ''my-volume'' @
            '' but with smaller size already exist'')), ?B)"
    using CreateVolume_existing_volume [OF n1 v ne c1 k1 ex gm, THEN conjunct1, THEN mp, OF lt] .
  have r2: "CreateVolume example_server ?small ?B =
        (Inr \<lparr>Volume = \<lparr>Volume.CapacityBytes = 5, Volume.VolumeId = ''my-volume'',
                        VolumeContext = [''mounter'' \<mapsto> ''s3fs'']\<rparr>\<rparr>,
         ?B\<lparr>fsmeta := (fsmeta ?B)((BucketName ?m, Prefix ?m) \<mapsto> ?m\<lparr>Mounter := ''s3fs''\<rparr>),
            mutations := mutations ?B @ [SetFSMetaCall (?m\<lparr>Mounter := ''s3fs''\<rparr>)]\<rparr>)"
    using CreateVolume_existing_volume [OF n2 v ne c2 k2 ex gm, THEN conjunct2, THEN mp, OF le]
    by (simp only: mo rq) (simp only: pa)
  have mu: "mutations ?B = []"
    by (simp add: backend_with_def empty_backend_def)
  show ?thesis
    using r1 by (simp add: r2 mu)
qed

text \<open>
  Claim C6. A \<open>CreateVolume\<close> request that passes the argument checks, for a bucket that
  exists but whose metadata cannot be read: the call goes on to persist a fresh record with
  \<open>CreatedByCsi = False\<close>, the derived bucket name and prefix, the mounter and the capacity
  of the request and the fixed \<open>FSPath\<close>; its outcome is the outcome of that write, and it
  succeeds when the backend accepts the write.
\<close>

theorem CreateVolume_unreadable_metadata:
  assumes "CreateVolume_names cs req = (bucketName, prefix, volumeID)"
    and "ValidateControllerServiceRequest cs RPC_CREATE_DELETE_VOLUME = None"
    and "volumeID \<noteq> ''''"
    and "CreateVolumeRequest.VolumeCapabilities req \<noteq> None"
    and "NewClientFromSecret cs (CreateVolumeRequest.Secrets req) = None"
    and "BucketExists bucketName s = Inr True"
    and "GetFSMeta bucketName prefix s = Inl err"
    and "meta = \<lparr>BucketName = bucketName, Prefix = prefix,
                  Mounter = index_map (Parameters req) (TypeKey cs),
                  FSMeta.CapacityBytes = GetRequiredBytes (CapacityRange req),
                  FSPath = ''csi-fs'', CreatedByCsi = False\<rparr>"
  shows "CreateVolume cs req s =
           (case SetFSMeta meta s of
              (Some e, s') \<Rightarrow> (Inl (Errorf ''error setting bucket metadata: '' e), s')
            | (None, s') \<Rightarrow>
                (Inr \<lparr>Volume = \<lparr>Volume.CapacityBytes = GetRequiredBytes (CapacityRange req),
                                Volume.VolumeId = volumeID,
                                VolumeContext = Parameters req\<rparr>\<rparr>, s')) \<and>
         (failure s (SetFSMetaCall meta) = None \<longrightarrow>
            CreateVolume cs req s =
              (Inr \<lparr>Volume = \<lparr>Volume.CapacityBytes = GetRequiredBytes (CapacityRange req),
                              Volume.VolumeId = volumeID,
                              VolumeContext = Parameters req\<rparr>\<rparr>,
               s\<lparr>fsmeta := (fsmeta s)((bucketName, prefix) \<mapsto> meta),
                 mutations := mutations s @ [SetFSMetaCall meta]\<rparr>))"
  using assms(7,8)
  by (auto simp: CreateVolume_checked [OF assms(1-6)] CreateVolume_meta_def SetFSMeta_def
      mutate_def defaultFsPath_def)

theorem CreateVolume_unreadable_metadata_witness:
  "BucketExists ''my-volume'' (bare_backend ''my-volume'') = Inr True \<and>
   GetFSMeta ''my-volume'' '''' (bare_backend ''my-volume'') = Inl (External ''not-found'') \<and>
   fst (CreateVolume example_server
     (create_request ''My-Volume'' 5 (Some [single_writer]) [''mounter'' \<mapsto> ''s3fs''])
     (bare_backend ''my-volume'')) =
     Inr \<lparr>Volume = \<lparr>Volume.CapacityBytes = 5, Volume.VolumeId = ''my-volume'',
                     VolumeContext = [''mounter'' \<mapsto> ''s3fs'']\<rparr>\<rparr> \<and>
   mutations (snd (CreateVolume example_server
     (create_request ''My-Volume'' 5 (Some [single_writer]) [''mounter'' \<mapsto> ''s3fs''])
     (bare_backend ''my-volume''))) =
     [SetFSMetaCall \<lparr>BucketName = ''my-volume'', Prefix = '''', Mounter = ''s3fs'',
        FSMeta.CapacityBytes = 5, FSPath = ''csi-fs'', CreatedByCsi = False\<rparr>]"
proof -
  let ?B = "bare_backend ''my-volume''"
  let ?req = "create_request ''My-Volume'' 5 (Some [single_writer]) [''mounter'' \<mapsto> ''s3fs'']"
  let ?m = "\<lparr>BucketName = ''my-volume'', Prefix = '''', Mounter = ''s3fs'',
        FSMeta.CapacityBytes = 5, FSPath = ''csi-fs'', CreatedByCsi = False\<rparr>"
  have n: "CreateVolume_names example_server ?req = (''my-volume'', '''', ''my-volume'')"
    by code_simp
  have v: "ValidateControllerServiceRequest example_server RPC_CREATE_DELETE_VOLUME = None"
    by (simp add: example_server_def)
  have ne: "''my-volume'' \<noteq> ''''"
    by simp
  have c: "CreateVolumeRequest.VolumeCapabilities ?req \<noteq> None"
    by (simp add: create_request_def)
  have k: "NewClientFromSecret example_server (CreateVolumeRequest.Secrets ?req) = None"
    by (simp add: example_server_def)
  have ex: "BucketExists ''my-volume'' ?B = Inr True"
    by code_simp
  have gm: "GetFSMeta ''my-volume'' '''' ?B = Inl (External ''not-found'')"
    by code_simp
  have mo: "index_map (Parameters ?req) (TypeKey example_server) = ''s3fs''"
    by code_simp
  have rq: "GetRequiredBytes (CapacityRange ?req) = 5"
    by code_simp
  have pa: "Parameters ?req = [''mounter'' \<mapsto> ''s3fs'']"
    by (simp add: create_request_def)
  have m: "?m = \<lparr>BucketName = ''my-volume'', Prefix = '''',
                  Mounter = index_map (Parameters ?req) (TypeKey example_server),
                  FSMeta.CapacityBytes = GetRequiredBytes (CapacityRange ?req),
                  FSPath = ''csi-fs'', CreatedByCsi = False\<rparr>"
    by (simp only: mo rq)
  have ok: "failure ?B (SetFSMetaCall ?m) = None"
    by (simp add: bare_backend_def empty_backend_def)
  have r: "CreateVolume example_server ?req ?B =
        (Inr \<lparr>Volume = \<lparr>Volume.CapacityBytes = 5, Volume.VolumeId = ''my-volume'',
                        VolumeContext = [''mounter'' \<mapsto> ''s3fs'']\<rparr>\<rparr>,
         ?B\<lparr>fsmeta := (fsmeta ?B)((''my-volume'', '''') \<mapsto> ?m),
            mutations := mutations ?B @ [SetFSMetaCall ?m]\<rparr>)"
    using CreateVolume_unreadable_metadata [OF n v ne c k ex gm m, THEN conjunct2, THEN mp, OF ok]
    by (simp only: rq pa)
  have mu: "mutations ?B = []"
    by (simp add: bare_backend_def empty_backend_def)
  show ?thesis
    using ex gm by (simp add: r mu)
qed

text \<open>
  Claim C9. The capacity in the response of a successful \<open>CreateVolume\<close> call is the
  capacity of the request, whatever the backend holds.
\<close>

theorem CreateVolume_response_capacity:
  "CreateVolume cs req s = (Inr resp, s') \<Longrightarrow>
   Volume.CapacityBytes (Volume resp) = GetRequiredBytes (CapacityRange req)"
  by (auto simp: CreateVolume_def Let_def
      split: prod.splits option.splits sum.splits if_splits)

theorem CreateVolume_response_capacity_witness:
  "fsmeta (backend_with (example_meta ''my-volume'' '''' 10 True)) (''my-volume'', '''') =
     Some (example_meta ''my-volume'' '''' 10 True) \<and>
   \<not> isl (fst (CreateVolume example_server
     (create_request ''My-Volume'' 5 (Some [single_writer]) Map.empty)
     (backend_with (example_meta ''my-volume'' '''' 10 True)))) \<and>
   Volume.CapacityBytes (Volume (projr (fst (CreateVolume example_server
     (create_request ''My-Volume'' 5 (Some [single_writer]) Map.empty)
     (backend_with (example_meta ''my-volume'' '''' 10 True)))))) = 5"
proof -
  let ?B = "backend_with (example_meta ''my-volume'' '''' 10 True)"
  let ?req = "create_request ''My-Volume'' 5 (Some [single_writer]) Map.empty"
  have st: "fsmeta ?B (''my-volume'', '''') = Some (example_meta ''my-volume'' '''' 10 True)"
    by code_simp
  have ok: "\<not> isl (fst (CreateVolume example_server ?req ?B))"
    by code_simp
  then obtain resp where r: "fst (CreateVolume example_server ?req ?B) = Inr resp"
    by (cases "fst (CreateVolume example_server ?req ?B)") simp_all
  then have h: "CreateVolume example_server ?req ?B =
                  (Inr resp, snd (CreateVolume example_server ?req ?B))"
    by (simp add: prod_eq_iff)
  have rq: "GetRequiredBytes (CapacityRange ?req) = 5"
    by code_simp
  have "Volume.CapacityBytes (Volume resp) = 5"
    using CreateVolume_response_capacity [OF h] by (simp only: rq)
  then show ?thesis
    using st ok by (simp add: r)
qed

text \<open>
  \<open>DeleteVolume\<close> once the request has passed the argument checks and the backend has
  reported the bucket as existing with readable metadata.
\<close>

lemma DeleteVolume_existing:
  assumes "volumeIDToBucketPrefix (DeleteVolumeRequest.VolumeId req) = (bucketName, prefix)"
    and "DeleteVolumeRequest.VolumeId req \<noteq> ''''"
    and "ValidateControllerServiceRequest cs RPC_CREATE_DELETE_VOLUME = None"
    and "NewClientFromSecret cs (DeleteVolumeRequest.Secrets req) = None"
    and "BucketExists bucketName s = Inr True"
    and "GetFSMeta bucketName prefix s = Inr meta"
  shows "DeleteVolume cs req s =
     (case (if prefix \<noteq> '''' then RemovePrefix bucketName prefix s else (None, s)) of
        (Some err, s1) \<Rightarrow> (Inl (Errorf ''unable to remove prefix: '' err), s1)
      | (None, s1) \<Rightarrow>
          if CreatedByCsi meta then
            (case RemoveBucket bucketName s1 of
               (Some err, s2) \<Rightarrow> (Inl err, s2)
             | (None, s2) \<Rightarrow> (Inr (), s2))
          else (Inr (), s1))"
  using assms by (simp add: DeleteVolume_def Let_def)

lemma BucketExists_True: "BucketExists name s = Inr True \<Longrightarrow> name \<in> buckets s"
  by (auto simp: BucketExists_def split: option.splits)

text \<open>
  Claim C1, as the code has it. A \<open>DeleteVolume\<close> request whose identifier decodes to a
  non-empty prefix, for a bucket that exists with readable metadata \<open>meta\<close>, where the
  backend carries out the removals: the call succeeds and removes the prefix; it then
  removes the bucket as well exactly when \<open>CreatedByCsi meta\<close> holds, so the bucket is
  left in place only when the controller did not create it.
\<close>

theorem DeleteVolume_prefix_and_bucket:
  assumes "volumeIDToBucketPrefix (DeleteVolumeRequest.VolumeId req) = (bucketName, prefix)"
    and "prefix \<noteq> ''''"
    and "ValidateControllerServiceRequest cs RPC_CREATE_DELETE_VOLUME = None"
    and "NewClientFromSecret cs (DeleteVolumeRequest.Secrets req) = None"
    and "BucketExists bucketName s = Inr True"
    and "GetFSMeta bucketName prefix s = Inr meta"
    and "failure s (RemovePrefixCall bucketName prefix) = None"
    and "CreatedByCsi meta \<longrightarrow> failure s (RemoveBucketCall bucketName) = None"
  shows "fst (DeleteVolume cs req s) = Inr () \<and>
         mutations (snd (DeleteVolume cs req s)) =
           mutations s @ RemovePrefixCall bucketName prefix #
             (if CreatedByCsi meta then [RemoveBucketCall bucketName] else []) \<and>
         (bucketName \<in> buckets (snd (DeleteVolume cs req s)) \<longleftrightarrow> \<not> CreatedByCsi meta)"
proof -
  have "DeleteVolumeRequest.VolumeId req \<noteq> ''''"
    using assms(1,2) volumeIDToBucketPrefix_prefix_nonempty [of "DeleteVolumeRequest.VolumeId req"]
    by simp
  note eq = DeleteVolume_existing [OF assms(1) this assms(3-6)]
  show ?thesis
    using assms(2,7,8) BucketExists_True [OF assms(5)]
    by (auto simp: eq RemovePrefix_def RemoveBucket_def mutate_def)
qed

theorem DeleteVolume_prefix_and_bucket_witness:
  "fst (DeleteVolume example_server (delete_request ''shared/vol'')
          (backend_with (example_meta ''shared'' ''vol'' 1024 False))) = Inr () \<and>
   mutations (snd (DeleteVolume example_server (delete_request ''shared/vol'')
          (backend_with (example_meta ''shared'' ''vol'' 1024 False)))) =
     [RemovePrefixCall ''shared'' ''vol''] \<and>
   ''shared'' \<in> buckets (snd (DeleteVolume example_server (delete_request ''shared/vol'')
          (backend_with (example_meta ''shared'' ''vol'' 1024 False)))) \<and>
   mutations (snd (DeleteVolume example_server (delete_request ''shared/vol'')
          (backend_with (example_meta ''shared'' ''vol'' 1024 True)))) =
     [RemovePrefixCall ''shared'' ''vol'', RemoveBucketCall ''shared''] \<and>
   ''shared'' \<notin> buckets (snd (DeleteVolume example_server (delete_request ''shared/vol'')
          (backend_with (example_meta ''shared'' ''vol'' 1024 True))))"
proof -
  let ?req = "delete_request ''shared/vol''"
  let ?F = "backend_with (example_meta ''shared'' ''vol'' 1024 False)"
  let ?T = "backend_with (example_meta ''shared'' ''vol'' 1024 True)"
  have d: "volumeIDToBucketPrefix (DeleteVolumeRequest.VolumeId ?req) = (''shared'', ''vol'')"
    by code_simp
  have ne: "''vol'' \<noteq> ''''"
    by simp
  have v: "ValidateControllerServiceRequest example_server RPC_CREATE_DELETE_VOLUME = None"
    by (simp add: example_server_def)
  have k: "NewClientFromSecret example_server (DeleteVolumeRequest.Secrets ?req) = None"
    by (simp add: example_server_def)
  have exF: "BucketExists ''shared'' ?F = Inr True"
    and exT: "BucketExists ''shared'' ?T = Inr True"
    by code_simp+
  have gmF: "GetFSMeta ''shared'' ''vol'' ?F = Inr (example_meta ''shared'' ''vol'' 1024 False)"
    and gmT: "GetFSMeta ''shared'' ''vol'' ?T = Inr (example_meta ''shared'' ''vol'' 1024 True)"
    by code_simp+
  have fF: "failure ?F c = None" and fT: "failure ?T c = None" for c
    by (simp_all add: backend_with_def empty_backend_def)
  have cF: "\<not> CreatedByCsi (example_meta ''shared'' ''vol'' 1024 False)"
    and cT: "CreatedByCsi (example_meta ''shared'' ''vol'' 1024 True)"
    by (simp_all add: example_meta_def)
  have mu: "mutations ?F = []" "mutations ?T = []"
    by (simp_all add: backend_with_def empty_backend_def)
  have rF: "CreatedByCsi (example_meta ''shared'' ''vol'' 1024 False) \<longrightarrow>
            failure ?F (RemoveBucketCall ''shared'') = None"
    and rT: "CreatedByCsi (example_meta ''shared'' ''vol'' 1024 True) \<longrightarrow>
            failure ?T (RemoveBucketCall ''shared'') = None"
    by (simp_all add: fF fT)
  show ?thesis
    using DeleteVolume_prefix_and_bucket [OF d ne v k exF gmF fF rF]
      DeleteVolume_prefix_and_bucket [OF d ne v k exT gmT fT rT]
    by (simp add: cF cT mu)
qed

text \<open>
  Claim C1 as stated fails where the metadata says that the controller created the
  bucket: the identifier \<open>bk/vol\<close> decodes to the non-empty prefix \<open>vol\<close>, the bucket
  \<open>bk\<close> exists with readable metadata, and \<open>DeleteVolume\<close> removes the prefix and then the
  bucket.
\<close>

theorem DeleteVolume_prefix_removes_created_bucket:
  "snd (volumeIDToBucketPrefix ''bk/vol'') \<noteq> '''' \<and>
   BucketExists ''bk'' (backend_with (example_meta ''bk'' ''vol'' 1024 True)) = Inr True \<and>
   GetFSMeta ''bk'' ''vol'' (backend_with (example_meta ''bk'' ''vol'' 1024 True)) =
     Inr (example_meta ''bk'' ''vol'' 1024 True) \<and>
   fst (DeleteVolume example_server (delete_request ''bk/vol'')
          (backend_with (example_meta ''bk'' ''vol'' 1024 True))) = Inr () \<and>
   ''bk'' \<notin> buckets (snd (DeleteVolume example_server (delete_request ''bk/vol'')
          (backend_with (example_meta ''bk'' ''vol'' 1024 True)))) \<and>
   mutations (snd (DeleteVolume example_server (delete_request ''bk/vol'')
          (backend_with (example_meta ''bk'' ''vol'' 1024 True)))) =
     [RemovePrefixCall ''bk'' ''vol'', RemoveBucketCall ''bk'']"
  by code_simp

text \<open>
  Claim C3. A \<open>DeleteVolume\<close> request that passes the argument checks. When the backend
  reports that the bucket does not exist, the call succeeds and the backend is unchanged.
  When the bucket exists with readable metadata and \<open>CreatedByCsi\<close> is true, and the
  backend carries out the removals, the call succeeds and ends with the removal of the
  bucket: the bucket and its metadata records are gone. When \<open>CreatedByCsi\<close> is false, the
  call succeeds, the bucket is never removed (the set of buckets is the same, the only
  mutation is the removal of a non-empty prefix), and with an empty prefix the backend is
  unchanged altogether.
\<close>

theorem DeleteVolume_spec:
  assumes "volumeIDToBucketPrefix (DeleteVolumeRequest.VolumeId req) = (bucketName, prefix)"
    and "DeleteVolumeRequest.VolumeId req \<noteq> ''''"
    and "ValidateControllerServiceRequest cs RPC_CREATE_DELETE_VOLUME = None"
    and "NewClientFromSecret cs (DeleteVolumeRequest.Secrets req) = None"
  shows "(BucketExists bucketName s = Inr False \<longrightarrow> DeleteVolume cs req s = (Inr (), s)) \<and>
         (BucketExists bucketName s = Inr True \<and> GetFSMeta bucketName prefix s = Inr meta \<and>
          CreatedByCsi meta \<and>
          (prefix \<noteq> '''' \<longrightarrow> failure s (RemovePrefixCall bucketName prefix) = None) \<and>
          failure s (RemoveBucketCall bucketName) = None \<longrightarrow>
            fst (DeleteVolume cs req s) = Inr () \<and>
            bucketName \<notin> buckets (snd (DeleteVolume cs req s)) \<and>
            (\<forall>p. fsmeta (snd (DeleteVolume cs req s)) (bucketName, p) = None) \<and>
            mutations (snd (DeleteVolume cs req s)) =
              mutations s @ (if prefix \<noteq> '''' then [RemovePrefixCall bucketName prefix] else []) @
              [RemoveBucketCall bucketName]) \<and>
         (BucketExists bucketName s = Inr True \<and> GetFSMeta bucketName prefix s = Inr meta \<and>
          \<not> CreatedByCsi meta \<and>
          (prefix \<noteq> '''' \<longrightarrow> failure s (RemovePrefixCall bucketName prefix) = None) \<longrightarrow>
            fst (DeleteVolume cs req s) = Inr () \<and>
            buckets (snd (DeleteVolume cs req s)) = buckets s \<and>
            mutations (snd (DeleteVolume cs req s)) =
              mutations s @ (if prefix \<noteq> '''' then [RemovePrefixCall bucketName prefix] else []) \<and>
            (prefix = '''' \<longrightarrow> snd (DeleteVolume cs req s) = s))"
proof (intro conjI impI)
  assume "BucketExists bucketName s = Inr False"
  then show "DeleteVolume cs req s = (Inr (), s)"
    using assms by (simp add: DeleteVolume_def Let_def)
next
  note defs = DeleteVolume_existing [OF assms] RemovePrefix_def RemoveBucket_def mutate_def
  assume a: "BucketExists bucketName s = Inr True \<and> GetFSMeta bucketName prefix s = Inr meta \<and>
          CreatedByCsi meta \<and>
          (prefix \<noteq> [] \<longrightarrow> failure s (RemovePrefixCall bucketName prefix) = None) \<and>
          failure s (RemoveBucketCall bucketName) = None"
  show "fst (DeleteVolume cs req s) = Inr ()"
    using a by (cases "prefix = []") (simp_all add: defs)
  show "bucketName \<notin> buckets (snd (DeleteVolume cs req s))"
    using a by (cases "prefix = []") (simp_all add: defs)
  show "\<forall>p. fsmeta (snd (DeleteVolume cs req s)) (bucketName, p) = None"
    using a by (cases "prefix = []") (simp_all add: defs)
  show "mutations (snd (DeleteVolume cs req s)) =
          mutations s @ (if prefix \<noteq> [] then [RemovePrefixCall bucketName prefix] else []) @
          [RemoveBucketCall bucketName]"
    using a by (cases "prefix = []") (simp_all add: defs)
next
  note defs = DeleteVolume_existing [OF assms] RemovePrefix_def mutate_def
  assume a: "BucketExists bucketName s = Inr True \<and> GetFSMeta bucketName prefix s = Inr meta \<and>
          \<not> CreatedByCsi meta \<and>
          (prefix \<noteq> [] \<longrightarrow> failure s (RemovePrefixCall bucketName prefix) = None)"
  show "fst (DeleteVolume cs req s) = Inr ()"
    using a by (cases "prefix = []") (simp_all add: defs)
  show "buckets (snd (DeleteVolume cs req s)) = buckets s"
    using a by (cases "prefix = []") (simp_all add: defs)
  show "mutations (snd (DeleteVolume cs req s)) =
          mutations s @ (if prefix \<noteq> [] then [RemovePrefixCall bucketName prefix] else [])"
    using a by (cases "prefix = []") (simp_all add: defs)
  show "snd (DeleteVolume cs req s) = s" if "prefix = []"
    using that a by (simp add: defs)
qed

theorem DeleteVolume_spec_witness:
  "DeleteVolume example_server (delete_request ''gone'') empty_backend = (Inr (), empty_backend) \<and>
   fst (DeleteVolume example_server (delete_request ''my-volume'')
          (backend_with (example_meta ''my-volume'' '''' 1073741824 True))) = Inr () \<and>
   ''my-volume'' \<notin> buckets (snd (DeleteVolume example_server (delete_request ''my-volume'')
          (backend_with (example_meta ''my-volume'' '''' 1073741824 True)))) \<and>
   mutations (snd (DeleteVolume example_server (delete_request ''my-volume'')
          (backend_with (example_meta ''my-volume'' '''' 1073741824 True)))) =
     [RemoveBucketCall ''my-volume''] \<and>
   DeleteVolume example_server (delete_request ''my-volume'')
          (backend_with (example_meta ''my-volume'' '''' 1073741824 False)) =
     (Inr (), backend_with (example_meta ''my-volume'' '''' 1073741824 False)) \<and>
   fst (DeleteVolume example_server (delete_request ''shared/vol'')
          (backend_with (example_meta ''shared'' ''vol'' 1024 False))) = Inr () \<and>
   buckets (snd (DeleteVolume example_server (delete_request ''shared/vol'')
          (backend_with (example_meta ''shared'' ''vol'' 1024 False)))) = {''shared''} \<and>
   mutations (snd (DeleteVolume example_server (delete_request ''shared/vol'')
          (backend_with (example_meta ''shared'' ''vol'' 1024 False)))) =
     [RemovePrefixCall ''shared'' ''vol'']"
proof -
  let ?T = "backend_with (example_meta ''my-volume'' '''' 1073741824 True)"
  let ?F = "backend_with (example_meta ''my-volume'' '''' 1073741824 False)"
  have d0: "volumeIDToBucketPrefix (DeleteVolumeRequest.VolumeId (delete_request ''gone'')) =
              (''gone'', '''')"
    and d1: "volumeIDToBucketPrefix (DeleteVolumeRequest.VolumeId (delete_request ''my-volume'')) =
              (''my-volume'', '''')"
    by code_simp+
  have ne0: "DeleteVolumeRequest.VolumeId (delete_request ''gone'') \<noteq> ''''"
    and ne1: "DeleteVolumeRequest.VolumeId (delete_request ''my-volume'') \<noteq> ''''"
    by (simp_all add: delete_request_def)
  have v: "ValidateControllerServiceRequest example_server RPC_CREATE_DELETE_VOLUME = None"
    by (simp add: example_server_def)
  have k: "NewClientFromSecret example_server (DeleteVolumeRequest.Secrets r) = None" for r
    by (simp add: example_server_def)
  have ex0: "BucketExists ''gone'' empty_backend = Inr False"
    by code_simp
  have r0: "DeleteVolume example_server (delete_request ''gone'') empty_backend =
              (Inr (), empty_backend)"
    using DeleteVolume_spec [OF d0 ne0 v k, THEN conjunct1, THEN mp, OF ex0] .
  have hT: "BucketExists ''my-volume'' ?T = Inr True \<and>
            GetFSMeta ''my-volume'' '''' ?T = Inr (example_meta ''my-volume'' '''' 1073741824 True) \<and>
            CreatedByCsi (example_meta ''my-volume'' '''' 1073741824 True) \<and>
            ('''' \<noteq> '''' \<longrightarrow> failure ?T (RemovePrefixCall ''my-volume'' '''') = None) \<and>
            failure ?T (RemoveBucketCall ''my-volume'') = None"
    by code_simp
  have hF: "BucketExists ''my-volume'' ?F = Inr True \<and>
            GetFSMeta ''my-volume'' '''' ?F = Inr (example_meta ''my-volume'' '''' 1073741824 False) \<and>
            \<not> CreatedByCsi (example_meta ''my-volume'' '''' 1073741824 False) \<and>
            ('''' \<noteq> '''' \<longrightarrow> failure ?F (RemovePrefixCall ''my-volume'' '''') = None)"
    by code_simp
  have mu: "mutations ?T = []"
    by (simp add: backend_with_def empty_backend_def)
  have rT: "fst (DeleteVolume example_server (delete_request ''my-volume'') ?T) = Inr () \<and>
            ''my-volume'' \<notin> buckets (snd (DeleteVolume example_server (delete_request ''my-volume'') ?T)) \<and>
            mutations (snd (DeleteVolume example_server (delete_request ''my-volume'') ?T)) =
              [RemoveBucketCall ''my-volume'']"
    using DeleteVolume_spec [OF d1 ne1 v k, THEN conjunct2, THEN conjunct1, THEN mp, OF hT]
    by (simp add: mu)
  have "fst (DeleteVolume example_server (delete_request ''my-volume'') ?F) = Inr () \<and>
        snd (DeleteVolume example_server (delete_request ''my-volume'') ?F) = ?F"
    using DeleteVolume_spec [OF d1 ne1 v k, THEN conjunct2, THEN conjunct2, THEN mp, OF hF]
    by simp
  then have rF: "DeleteVolume example_server (delete_request ''my-volume'') ?F = (Inr (), ?F)"
    by (simp add: prod_eq_iff)
  let ?S = "backend_with (example_meta ''shared'' ''vol'' 1024 False)"
  have d2: "volumeIDToBucketPrefix (DeleteVolumeRequest.VolumeId (delete_request ''shared/vol'')) =
              (''shared'', ''vol'')"
    by code_simp
  have ne2: "DeleteVolumeRequest.VolumeId (delete_request ''shared/vol'') \<noteq> ''''"
    by (simp add: delete_request_def)
  have hS: "BucketExists ''shared'' ?S = Inr True \<and>
            GetFSMeta ''shared'' ''vol'' ?S = Inr (example_meta ''shared'' ''vol'' 1024 False) \<and>
            \<not> CreatedByCsi (example_meta ''shared'' ''vol'' 1024 False) \<and>
            (''vol'' \<noteq> '''' \<longrightarrow> failure ?S (RemovePrefixCall ''shared'' ''vol'') = None)"
    by code_simp
  have bS: "buckets ?S = {''shared''}" and mS: "mutations ?S = []"
    by (simp_all add: backend_with_def empty_backend_def example_meta_def)
  have rS: "fst (DeleteVolume example_server (delete_request ''shared/vol'') ?S) = Inr () \<and>
            buckets (snd (DeleteVolume example_server (delete_request ''shared/vol'') ?S)) =
              {''shared''} \<and>
            mutations (snd (DeleteVolume example_server (delete_request ''shared/vol'') ?S)) =
              [RemovePrefixCall ''shared'' ''vol'']"
    using DeleteVolume_spec [OF d2 ne2 v k, THEN conjunct2, THEN conjunct2, THEN mp, OF hS]
    by (simp add: bS mS)
  show ?thesis
    using r0 rT rF rS by simp
qed

text \<open>
  Claim C7. A \<open>ValidateVolumeCapabilities\<close> request that passes the argument checks.
  When the backend reports that the bucket does not exist, or that it exists but its
  metadata cannot be read, the call fails with the not-found status. Otherwise, when some
  requested capability has another access mode than single-node-writer, the call returns
  the response with the message and no confirmation, and no error; when all of them have
  that mode, it returns the confirmation that lists the single-node-writer mode alone.
\<close>

theorem ValidateVolumeCapabilities_spec:
  assumes "volumeIDToBucketPrefix (ValidateVolumeCapabilitiesRequest.VolumeId req) =
             (bucketName, prefix)"
    and "ValidateVolumeCapabilitiesRequest.VolumeId req \<noteq> ''''"
    and "ValidateVolumeCapabilitiesRequest.VolumeCapabilities req = Some caps"
    and "NewClientFromSecret cs (ValidateVolumeCapabilitiesRequest.Secrets req) = None"
  shows "(BucketExists bucketName s = Inr False \<longrightarrow>
            ValidateVolumeCapabilities cs req s =
              Inl (Status NotFound (''bucket of volume with id '' @
                     ValidateVolumeCapabilitiesRequest.VolumeId req @ '' does not exist''))) \<and>
         (BucketExists bucketName s = Inr True \<and> GetFSMeta bucketName prefix s = Inl err \<longrightarrow>
            ValidateVolumeCapabilities cs req s =
              Inl (Status NotFound (''fsmeta of volume with id '' @
                     ValidateVolumeCapabilitiesRequest.VolumeId req @ '' does not exist''))) \<and>
         (BucketExists bucketName s = Inr True \<and> GetFSMeta bucketName prefix s = Inr meta \<and>
          (\<exists>cap \<in> set caps. GetMode (GetAccessMode cap) \<noteq> SINGLE_NODE_WRITER) \<longrightarrow>
            ValidateVolumeCapabilities cs req s =
              Inr \<lparr>Confirmed = None, Message = ''Only single node writer is supported''\<rparr>) \<and>
         (BucketExists bucketName s = Inr True \<and> GetFSMeta bucketName prefix s = Inr meta \<and>
          (\<forall>cap \<in> set caps. GetMode (GetAccessMode cap) = SINGLE_NODE_WRITER) \<longrightarrow>
            ValidateVolumeCapabilities cs req s =
              Inr \<lparr>Confirmed =
                     Some \<lparr>ValidateVolumeCapabilitiesResponse_Confirmed.VolumeCapabilities =
                             [Some \<lparr>AccessMode = Some \<lparr>Mode = SINGLE_NODE_WRITER\<rparr>\<rparr>]\<rparr>,
                   Message = ''''\<rparr>)"
  using assms
  by (auto simp: ValidateVolumeCapabilities_def ValidateVolumeCapabilities_loop_eq)

theorem ValidateVolumeCapabilities_spec_witness:
  "ValidateVolumeCapabilities example_server
     (validate_request ''bk/vol'' (Some [single_writer, multi_writer])) empty_backend =
     Inl (Status NotFound ''bucket of volume with id bk/vol does not exist'') \<and>
   ValidateVolumeCapabilities example_server
     (validate_request ''bk/vol'' (Some [single_writer, multi_writer])) (bare_backend ''bk'') =
     Inl (Status NotFound ''fsmeta of volume with id bk/vol does not exist'') \<and>
   ValidateVolumeCapabilities example_server
     (validate_request ''bk/vol'' (Some [single_writer, multi_writer]))
     (backend_with (example_meta ''bk'' ''vol'' 1024 True)) =
     Inr \<lparr>Confirmed = None, Message = ''Only single node writer is supported''\<rparr> \<and>
   ValidateVolumeCapabilities example_server
     (validate_request ''bk/vol'' (Some [single_writer, single_writer]))
     (backend_with (example_meta ''bk'' ''vol'' 1024 True)) =
     Inr \<lparr>Confirmed =
            Some \<lparr>ValidateVolumeCapabilitiesResponse_Confirmed.VolumeCapabilities =
                    [Some \<lparr>AccessMode = Some \<lparr>Mode = SINGLE_NODE_WRITER\<rparr>\<rparr>]\<rparr>,
          Message = ''''\<rparr>"
proof -
  let ?mixed = "validate_request ''bk/vol'' (Some [single_writer, multi_writer])"
  let ?same = "validate_request ''bk/vol'' (Some [single_writer, single_writer])"
  let ?B = "backend_with (example_meta ''bk'' ''vol'' 1024 True)"
  have d1: "volumeIDToBucketPrefix (ValidateVolumeCapabilitiesRequest.VolumeId ?mixed) =
              (''bk'', ''vol'')"
    and d2: "volumeIDToBucketPrefix (ValidateVolumeCapabilitiesRequest.VolumeId ?same) =
              (''bk'', ''vol'')"
    by code_simp+
  have ne1: "ValidateVolumeCapabilitiesRequest.VolumeId ?mixed \<noteq> ''''"
    and ne2: "ValidateVolumeCapabilitiesRequest.VolumeId ?same \<noteq> ''''"
    by (simp_all add: validate_request_def)
  have c1: "ValidateVolumeCapabilitiesRequest.VolumeCapabilities ?mixed =
              Some [single_writer, multi_writer]"
    and c2: "ValidateVolumeCapabilitiesRequest.VolumeCapabilities ?same =
              Some [single_writer, single_writer]"
    by (simp_all add: validate_request_def)
  have k: "NewClientFromSecret example_server (ValidateVolumeCapabilitiesRequest.Secrets r) = None"
    for r
    by (simp add: example_server_def)
  have id: "ValidateVolumeCapabilitiesRequest.VolumeId ?mixed = ''bk/vol''"
    by (simp add: validate_request_def)
  have h1: "BucketExists ''bk'' empty_backend = Inr False"
    by code_simp
  have h2: "BucketExists ''bk'' (bare_backend ''bk'') = Inr True \<and>
            GetFSMeta ''bk'' ''vol'' (bare_backend ''bk'') = Inl (External ''not-found'')"
    by code_simp
  have h3: "BucketExists ''bk'' ?B = Inr True \<and>
            GetFSMeta ''bk'' ''vol'' ?B = Inr (example_meta ''bk'' ''vol'' 1024 True) \<and>
            (\<exists>cap \<in> set [single_writer, multi_writer].
               GetMode (GetAccessMode cap) \<noteq> SINGLE_NODE_WRITER)"
    by code_simp
  have h4: "BucketExists ''bk'' ?B = Inr True \<and>
            GetFSMeta ''bk'' ''vol'' ?B = Inr (example_meta ''bk'' ''vol'' 1024 True) \<and>
            (\<forall>cap \<in> set [single_writer, single_writer].
               GetMode (GetAccessMode cap) = SINGLE_NODE_WRITER)"
    by code_simp
  note spec1 = ValidateVolumeCapabilities_spec [OF d1 ne1 c1 k]
  note spec2 = ValidateVolumeCapabilities_spec [OF d2 ne2 c2 k]
  have r1: "ValidateVolumeCapabilities example_server ?mixed empty_backend =
      Inl (Status NotFound ''bucket of volume with id bk/vol does not exist'')"
    using spec1 [THEN conjunct1, THEN mp, OF h1] by (simp add: id)
  have r2: "ValidateVolumeCapabilities example_server ?mixed (bare_backend ''bk'') =
      Inl (Status NotFound ''fsmeta of volume with id bk/vol does not exist'')"
    using spec1 [THEN conjunct2, THEN conjunct1, THEN mp, OF h2] by (simp add: id)
  have r3: "ValidateVolumeCapabilities example_server ?mixed ?B =
      Inr \<lparr>Confirmed = None, Message = ''Only single node writer is supported''\<rparr>"
    using spec1 [THEN conjunct2, THEN conjunct2, THEN conjunct1, THEN mp, OF h3] .
  have r4: "ValidateVolumeCapabilities example_server ?same ?B =
      Inr \<lparr>Confirmed =
            Some \<lparr>ValidateVolumeCapabilitiesResponse_Confirmed.VolumeCapabilities =
                    [Some \<lparr>AccessMode = Some \<lparr>Mode = SINGLE_NODE_WRITER\<rparr>\<rparr>]\<rparr>,
          Message = ''''\<rparr>"
    using spec2 [THEN conjunct2, THEN conjunct2, THEN conjunct2, THEN mp, OF h4] .
  show ?thesis
    using r1 r2 r3 r4 by (intro conjI)
qed

text \<open>
  Claim C10. Both handlers compare the capability list with nil only. For a
  \<open>CreateVolume\<close> request with a name that the driver accepts, the call returns an
  invalid-argument status exactly when the list is nil. For a \<open>ValidateVolumeCapabilities\<close>
  request with an identifier, where the existence check of the backend does not fail, the
  call returns an invalid-argument status exactly when the list is nil. With the empty list,
  on an existing bucket with readable metadata, \<open>ValidateVolumeCapabilities\<close> returns the
  confirmation.
\<close>

theorem capabilities_rejected_only_when_nil:
  "(ValidateControllerServiceRequest cs RPC_CREATE_DELETE_VOLUME = None \<and>
    snd (snd (CreateVolume_names cs creq)) \<noteq> '''' \<longrightarrow>
      ((\<exists>msg s'. CreateVolume cs creq s = (Inl (Status InvalidArgument msg), s')) \<longleftrightarrow>
       CreateVolumeRequest.VolumeCapabilities creq = None)) \<and>
   (ValidateVolumeCapabilitiesRequest.VolumeId vreq \<noteq> '''' \<and>
    failure s (BucketExistsCall
      (fst (volumeIDToBucketPrefix (ValidateVolumeCapabilitiesRequest.VolumeId vreq)))) = None \<longrightarrow>
      ((\<exists>msg. ValidateVolumeCapabilities cs vreq s = Inl (Status InvalidArgument msg)) \<longleftrightarrow>
       ValidateVolumeCapabilitiesRequest.VolumeCapabilities vreq = None)) \<and>
   (ValidateVolumeCapabilitiesRequest.VolumeId vreq \<noteq> '''' \<and>
    ValidateVolumeCapabilitiesRequest.VolumeCapabilities vreq = Some [] \<and>
    NewClientFromSecret cs (ValidateVolumeCapabilitiesRequest.Secrets vreq) = None \<and>
    BucketExists (fst (volumeIDToBucketPrefix (ValidateVolumeCapabilitiesRequest.VolumeId vreq))) s =
      Inr True \<and>
    GetFSMeta (fst (volumeIDToBucketPrefix (ValidateVolumeCapabilitiesRequest.VolumeId vreq)))
      (snd (volumeIDToBucketPrefix (ValidateVolumeCapabilitiesRequest.VolumeId vreq))) s =
      Inr meta \<longrightarrow>
      ValidateVolumeCapabilities cs vreq s =
        Inr \<lparr>Confirmed =
               Some \<lparr>ValidateVolumeCapabilitiesResponse_Confirmed.VolumeCapabilities =
                       [Some \<lparr>AccessMode = Some \<lparr>Mode = SINGLE_NODE_WRITER\<rparr>\<rparr>]\<rparr>,
             Message = ''''\<rparr>)"
proof (intro conjI impI)
  assume "ValidateControllerServiceRequest cs RPC_CREATE_DELETE_VOLUME = None \<and>
    snd (snd (CreateVolume_names cs creq)) \<noteq> ''''"
  then show "(\<exists>msg s'. CreateVolume cs creq s = (Inl (Status InvalidArgument msg), s')) \<longleftrightarrow>
       CreateVolumeRequest.VolumeCapabilities creq = None"
    by (auto simp: CreateVolume_def CreateVolume_meta_def Let_def
        split: prod.splits option.splits sum.splits if_splits)
next
  assume "ValidateVolumeCapabilitiesRequest.VolumeId vreq \<noteq> '''' \<and>
    failure s (BucketExistsCall
      (fst (volumeIDToBucketPrefix (ValidateVolumeCapabilitiesRequest.VolumeId vreq)))) = None"
  then show "(\<exists>msg. ValidateVolumeCapabilities cs vreq s = Inl (Status InvalidArgument msg)) \<longleftrightarrow>
       ValidateVolumeCapabilitiesRequest.VolumeCapabilities vreq = None"
    by (auto simp: ValidateVolumeCapabilities_def BucketExists_def Let_def
        split: prod.splits option.splits sum.splits if_splits)
next
  assume "ValidateVolumeCapabilitiesRequest.VolumeId vreq \<noteq> '''' \<and>
    ValidateVolumeCapabilitiesRequest.VolumeCapabilities vreq = Some [] \<and>
    NewClientFromSecret cs (ValidateVolumeCapabilitiesRequest.Secrets vreq) = None \<and>
    BucketExists (fst (volumeIDToBucketPrefix (ValidateVolumeCapabilitiesRequest.VolumeId vreq))) s =
      Inr True \<and>
    GetFSMeta (fst (volumeIDToBucketPrefix (ValidateVolumeCapabilitiesRequest.VolumeId vreq)))
      (snd (volumeIDToBucketPrefix (ValidateVolumeCapabilitiesRequest.VolumeId vreq))) s =
      Inr meta"
  then show "ValidateVolumeCapabilities cs vreq s =
        Inr \<lparr>Confirmed =
               Some \<lparr>ValidateVolumeCapabilitiesResponse_Confirmed.VolumeCapabilities =
                       [Some \<lparr>AccessMode = Some \<lparr>Mode = SINGLE_NODE_WRITER\<rparr>\<rparr>]\<rparr>,
             Message = ''''\<rparr>"
    by (auto simp: ValidateVolumeCapabilities_def split: prod.splits)
qed

theorem capabilities_rejected_only_when_nil_witness:
  "(\<exists>msg s'. CreateVolume example_server (create_request ''My-Volume'' 5 None Map.empty)
                empty_backend = (Inl (Status InvalidArgument msg), s')) \<and>
   \<not> (\<exists>msg s'. CreateVolume example_server (create_request ''My-Volume'' 5 (Some []) Map.empty)
                empty_backend = (Inl (Status InvalidArgument msg), s')) \<and>
   (\<exists>msg. ValidateVolumeCapabilities example_server (validate_request ''bk/vol'' None)
             (backend_with (example_meta ''bk'' ''vol'' 1024 True)) =
           Inl (Status InvalidArgument msg)) \<and>
   ValidateVolumeCapabilities example_server (validate_request ''bk/vol'' (Some []))
     (backend_with (example_meta ''bk'' ''vol'' 1024 True)) =
     Inr \<lparr>Confirmed =
            Some \<lparr>ValidateVolumeCapabilitiesResponse_Confirmed.VolumeCapabilities =
                    [Some \<lparr>AccessMode = Some \<lparr>Mode = SINGLE_NODE_WRITER\<rparr>\<rparr>]\<rparr>,
          Message = ''''\<rparr>"
proof -
  let ?B = "backend_with (example_meta ''bk'' ''vol'' 1024 True)"
  let ?cnil = "create_request ''My-Volume'' 5 None Map.empty"
  let ?cemp = "create_request ''My-Volume'' 5 (Some []) Map.empty"
  let ?vnil = "validate_request ''bk/vol'' None"
  let ?vemp = "validate_request ''bk/vol'' (Some [])"
  have a1: "ValidateControllerServiceRequest example_server RPC_CREATE_DELETE_VOLUME = None \<and>
            snd (snd (CreateVolume_names example_server ?cnil)) \<noteq> ''''"
    and a2: "ValidateControllerServiceRequest example_server RPC_CREATE_DELETE_VOLUME = None \<and>
            snd (snd (CreateVolume_names example_server ?cemp)) \<noteq> ''''"
    by code_simp+
  have b1: "ValidateVolumeCapabilitiesRequest.VolumeId ?vnil \<noteq> '''' \<and>
            failure ?B (BucketExistsCall
              (fst (volumeIDToBucketPrefix (ValidateVolumeCapabilitiesRequest.VolumeId ?vnil)))) = None"
    by code_simp
  have b2: "ValidateVolumeCapabilitiesRequest.VolumeId ?vemp \<noteq> '''' \<and>
    ValidateVolumeCapabilitiesRequest.VolumeCapabilities ?vemp = Some [] \<and>
    NewClientFromSecret example_server (ValidateVolumeCapabilitiesRequest.Secrets ?vemp) = None \<and>
    BucketExists (fst (volumeIDToBucketPrefix (ValidateVolumeCapabilitiesRequest.VolumeId ?vemp))) ?B =
      Inr True \<and>
    GetFSMeta (fst (volumeIDToBucketPrefix (ValidateVolumeCapabilitiesRequest.VolumeId ?vemp)))
      (snd (volumeIDToBucketPrefix (ValidateVolumeCapabilitiesRequest.VolumeId ?vemp))) ?B =
      Inr (example_meta ''bk'' ''vol'' 1024 True)"
    by code_simp
  have n1: "CreateVolumeRequest.VolumeCapabilities ?cnil = None"
    and n2: "CreateVolumeRequest.VolumeCapabilities ?cemp \<noteq> None"
    and n3: "ValidateVolumeCapabilitiesRequest.VolumeCapabilities ?vnil = None"
    by (simp_all add: create_request_def validate_request_def)
  have r1: "\<exists>msg s'. CreateVolume example_server ?cnil empty_backend =
                       (Inl (Status InvalidArgument msg), s')"
    using capabilities_rejected_only_when_nil
            [where cs = example_server and creq = "?cnil" and s = empty_backend, THEN conjunct1, THEN mp, OF a1] n1
    by (rule iffD2)
  have r2: "\<not> (\<exists>msg s'. CreateVolume example_server ?cemp empty_backend =
                       (Inl (Status InvalidArgument msg), s'))"
    using capabilities_rejected_only_when_nil
            [where cs = example_server and creq = "?cemp" and s = empty_backend, THEN conjunct1, THEN mp, OF a2] n2
    by blast
  have r3: "\<exists>msg. ValidateVolumeCapabilities example_server ?vnil ?B =
                    Inl (Status InvalidArgument msg)"
    using capabilities_rejected_only_when_nil
            [where cs = example_server and vreq = "?vnil" and s = "?B", THEN conjunct2, THEN conjunct1, THEN mp, OF b1] n3
    by (rule iffD2)
  have r4: "ValidateVolumeCapabilities example_server ?vemp ?B =
     Inr \<lparr>Confirmed =
            Some \<lparr>ValidateVolumeCapabilitiesResponse_Confirmed.VolumeCapabilities =
                    [Some \<lparr>AccessMode = Some \<lparr>Mode = SINGLE_NODE_WRITER\<rparr>\<rparr>]\<rparr>,
          Message = ''''\<rparr>"
    using capabilities_rejected_only_when_nil
            [where cs = example_server and vreq = "?vemp" and s = "?B", THEN conjunct2, THEN conjunct2, THEN mp, OF b2] .
  show ?thesis
    using r1 r2 r3 r4 by (intro conjI)
qed

end
